theory Spec2Isabelle
  imports Complex_Main "HOL-Library.Word"
begin

section \<open>JavaScript values used by the backend\<close>

text \<open>
  A JavaScript string is a sequence of UTF-16 code units. Client-supplied names, paths and
  ids are kept in that form, because the regular expression of the storage callback
  (\<^verbatim>\<open>/\s+/g\<close>, no \<^verbatim>\<open>u\<close> flag) works on code units.
\<close>

type_synonym jschar = "16 word"
type_synonym jsstring = "jschar list"
type_synonym bytes = "8 word list"

text \<open>The literals of the source that end up inside such strings.\<close>

definition underscore :: jschar where
  "underscore = 0x5F"

definition slash :: jschar where
  "slash = 0x2F"

text \<open>
  The class \<^verbatim>\<open>\s\<close> of ECMAScript: WhiteSpace (TAB, VT, FF, SP, NBSP, ZWNBSP and the
  space separators of Unicode) and LineTerminator (LF, CR, LS, PS).
\<close>

definition is_space :: "jschar \<Rightarrow> bool" where
  "is_space c =
     (c = 0x09 \<or> c = 0x0A \<or> c = 0x0B \<or> c = 0x0C \<or> c = 0x0D \<or> c = 0x20 \<or> c = 0xA0 \<or>
      c = 0x1680 \<or> (0x2000 \<le> c \<and> c \<le> 0x200A) \<or> c = 0x2028 \<or> c = 0x2029 \<or>
      c = 0x202F \<or> c = 0x205F \<or> c = 0x3000 \<or> c = 0xFEFF)"

text \<open>
  \<^verbatim>\<open>s.replace(/\s+/g, '_')\<close>: scanning from the left, every maximal run of whitespace
  code units becomes one underscore, everything else is copied.
\<close>

function replace_ws :: "jsstring \<Rightarrow> jsstring" where
  "replace_ws [] = []"
| "replace_ws (c # cs) =
     (if is_space c then underscore # replace_ws (dropWhile is_space cs)
      else c # replace_ws cs)"
  by pat_completeness auto
termination
  by (relation "measure length") (auto simp: length_dropWhile_le less_Suc_eq_le)

text \<open>
  \<^verbatim>\<open>Date.now() + '_'\<close> converts the number to a string first. \<^verbatim>\<open>Date.now()\<close> is a
  non-negative integer number of milliseconds, far below \<^verbatim>\<open>1e21\<close>, so the conversion
  is the plain decimal numeral.
\<close>

definition digit :: "nat \<Rightarrow> jschar" where
  "digit d = 0x30 + of_nat d"

fun number_to_string :: "nat \<Rightarrow> jsstring" where
  "number_to_string n =
     (if n < 10 then [digit n] else number_to_string (n div 10) @ [digit (n mod 10)])"

declare number_to_string.simps [simp del]

text \<open>Reading a decimal numeral back, to say what \<open>number_to_string\<close> produces.\<close>

definition decimal_value :: "jsstring \<Rightarrow> nat" where
  "decimal_value ds = foldl (\<lambda>v c. 10 * v + (unat c - 48)) 0 ds"

text \<open>
  A JavaScript number as far as its truth value goes: \<^verbatim>\<open>NaN\<close> or a value, where both
  zeros are the value 0. The falsy numbers are \<^verbatim>\<open>NaN\<close>, \<^verbatim>\<open>0\<close> and \<^verbatim>\<open>-0\<close>.
\<close>

datatype jsnum = NaN | Num rat

definition truthy_num :: "jsnum \<Rightarrow> bool" where
  "truthy_num x = (case x of NaN \<Rightarrow> False | Num r \<Rightarrow> r \<noteq> 0)"

definition truthy_string :: "jsstring \<Rightarrow> bool" where
  "truthy_string s = (s \<noteq> [])"

section \<open>Data model\<close>

text \<open>
  Errors are values. Every \<^verbatim>\<open>catch\<close> of the source catches everything, so only the
  origin of an exception is recorded.
\<close>

datatype exn = StoreError | BlobError | AnalyzerError | MulterError

datatype doc_status = Processing | Processed

text \<open>
  A row of the documents table. A nullable column is an option, \<open>None\<close> being SQL
  \<^verbatim>\<open>NULL\<close>.
\<close>

record document =
  doc_id :: jsstring
  filename :: jsstring
  blob_url :: jsstring
  status :: doc_status
  document_type :: "jsstring option"
  doc_confidence :: "jsnum option"

text \<open>One extracted name/value pair, as the analyzer returns it.\<close>

record extracted_field =
  field_name :: jsstring
  field_value :: jsstring

text \<open>A row of the fields table: the owning document's id and the pair.\<close>

record field_row =
  document_id :: jsstring
  row_field :: extracted_field

text \<open>
  The analyzer's result object \<^verbatim>\<open>{documentType, confidence, fields}\<close>. A property that
  is missing (or \<^verbatim>\<open>undefined\<close>, or \<^verbatim>\<open>null\<close>) is \<open>None\<close>. The property
  \<^verbatim>\<open>fields\<close> is called \<open>field_list\<close>, a record cannot have a field of that name.
  An analyzer that resolves to no object at all makes the handler throw at
  \<^verbatim>\<open>analysis.fields\<close>, after the insertion and before anything else is written: for the
  handler that is an analyzer that throws, and it is modelled as one.
\<close>

record analysis =
  documentType :: "jsstring option"
  confidence :: "jsnum option"
  field_list :: "extracted_field list option"

text \<open>\<^verbatim>\<open>req.file\<close> as multer's disk storage fills it in.\<close>

record file_info =
  originalname :: jsstring
  file_filename :: jsstring
  file_path :: jsstring

text \<open>What \<^verbatim>\<open>console.error\<close> received.\<close>

datatype log_entry = AzureBlobUploadFailed exn | Logged exn

text \<open>
  The state the server works on: the two tables of the store, the local disk (the upload
  directory lives there) and the error log.
\<close>

record server_state =
  documents :: "document list"
  fields_tbl :: "field_row list"
  disk :: "jsstring \<rightharpoonup> bytes"
  console :: "log_entry list"

text \<open>
  JSON bodies of the responses (and the HTML page of Express's own error handler), and a
  response with its HTTP status code.
\<close>

datatype body =
    Failure string
  | UploadOk jsstring analysis
  | DocumentOk document "field_row list"
  | ErrorPage

datatype response = Response nat body

text \<open>
  Everything a request handler takes from outside the program text: the configuration
  (\<^verbatim>\<open>UPLOAD_DIR\<close>, \<^verbatim>\<open>process.env.AZURE_STORAGE_CONNECTION_STRING\<close>), the clock, the
  id generator, the two service modules that are called through their interface only
  (\<^verbatim>\<open>azureBlob.uploadLocalFile\<close>, \<^verbatim>\<open>analyzer.analyze\<close>), and whether the store is
  failing at each of the calls made to it.
\<close>

record env =
  UPLOAD_DIR :: jsstring
  AZURE_STORAGE_CONNECTION_STRING :: "jsstring option"
  now :: nat
  uuidv4 :: jsstring
  uploadLocalFile :: "jsstring \<Rightarrow> jsstring \<Rightarrow> exn + jsstring"
  analyze :: "jsstring \<Rightarrow> jsstring \<Rightarrow> exn + analysis"
  insert_fails :: bool
  save_fails :: bool
  update_fails :: bool
  getDocument_fails :: bool
  getFields_fails :: bool

section \<open>The document store\<close>

text \<open>
  Modelled from the spec: the module \<^verbatim>\<open>services/db\<close> is not among the sources, only its
  calls are. Each operation follows the description of the store in the specification;
  its first argument says whether the store is failing at this call, in which case the
  operation throws and changes nothing.
\<close>

text \<open>
  Modelled from the spec: \<^verbatim>\<open>insertDocument\<close> of \<^verbatim>\<open>services/db\<close>. It creates one row,
  with no type and no confidence yet, and fails if the id already exists.
\<close>

definition insertDocument ::
  "bool \<Rightarrow> jsstring \<Rightarrow> jsstring \<Rightarrow> jsstring \<Rightarrow> doc_status \<Rightarrow> server_state \<Rightarrow> exn + server_state"
where
  "insertDocument fails i nm url st s =
     (if fails \<or> i \<in> set (map doc_id (documents s)) then Inl StoreError
      else Inr (s\<lparr>documents := documents s @
             [\<lparr>doc_id = i, filename = nm, blob_url = url, status = st,
               document_type = None, doc_confidence = None\<rparr>]\<rparr>))"

text \<open>
  Modelled from the spec: \<^verbatim>\<open>getDocument\<close> of \<^verbatim>\<open>services/db\<close>. It returns the row, or
  the signal that there is none, which is not an error.
\<close>

definition getDocument :: "bool \<Rightarrow> jsstring \<Rightarrow> server_state \<Rightarrow> exn + document option" where
  "getDocument fails i s =
     (if fails then Inl StoreError else Inr (find (\<lambda>d. doc_id d = i) (documents s)))"

text \<open>
  Modelled from the spec: \<^verbatim>\<open>getFields\<close> of \<^verbatim>\<open>services/db\<close>. It returns all field rows
  of the document, possibly none.
\<close>

definition getFields :: "bool \<Rightarrow> jsstring \<Rightarrow> server_state \<Rightarrow> exn + field_row list" where
  "getFields fails i s =
     (if fails then Inl StoreError
      else Inr (filter (\<lambda>r. document_id r = i) (fields_tbl s)))"

text \<open>
  Modelled from the spec: \<^verbatim>\<open>saveExtractedFields\<close> of \<^verbatim>\<open>services/db\<close>. It inserts one
  row per field, and nothing for the empty list.
\<close>

definition field_rows :: "jsstring \<Rightarrow> extracted_field list \<Rightarrow> field_row list" where
  "field_rows i fs = map (\<lambda>f. \<lparr>document_id = i, row_field = f\<rparr>) fs"

definition saveExtractedFields ::
  "bool \<Rightarrow> jsstring \<Rightarrow> extracted_field list \<Rightarrow> server_state \<Rightarrow> exn + server_state"
where
  "saveExtractedFields fails i fs s =
     (if fails then Inl StoreError
      else Inr (s\<lparr>fields_tbl := fields_tbl s @ field_rows i fs\<rparr>))"

text \<open>
  Modelled from the spec: \<^verbatim>\<open>updateDocumentStatus\<close> of \<^verbatim>\<open>services/db\<close>. It updates
  the three columns of the existing row, and fails if there is no such row.
\<close>

definition updateDocumentStatus ::
  "bool \<Rightarrow> jsstring \<Rightarrow> doc_status \<Rightarrow> jsstring option \<Rightarrow> jsnum option \<Rightarrow> server_state
     \<Rightarrow> exn + server_state"
where
  "updateDocumentStatus fails i st dt c s =
     (if fails \<or> i \<notin> set (map doc_id (documents s)) then Inl StoreError
      else Inr (s\<lparr>documents :=
             map (\<lambda>d. if doc_id d = i
                       then d\<lparr>status := st, document_type := dt, doc_confidence := c\<rparr>
                       else d)
               (documents s)\<rparr>))"

section \<open>Receiving the file: multer's disk storage\<close>

text \<open>
  The \<^verbatim>\<open>filename\<close> callback given to \<^verbatim>\<open>multer.diskStorage\<close>:
  \<^verbatim>\<open>Date.now() + '_' + file.originalname.replace(/\s+/g,'_')\<close>.
\<close>

definition storage_filename :: "nat \<Rightarrow> jsstring \<Rightarrow> jsstring" where
  "storage_filename t nm = number_to_string t @ underscore # replace_ws nm"

text \<open>
  \<^verbatim>\<open>path.join(dir, name)\<close> for a normalised directory and a name without separators,
  which is what multer passes: the callback gets a base name, and the name it returns
  starts with digits.
\<close>

definition path_join :: "jsstring \<Rightarrow> jsstring \<Rightarrow> jsstring" where
  "path_join dir nm = dir @ slash # nm"

text \<open>\<^verbatim>\<open>path.basename\<close> of a path that does not end in a separator.\<close>

definition basename :: "jsstring \<Rightarrow> jsstring" where
  "basename p = rev (takeWhile (\<lambda>c. c \<noteq> slash) (rev p))"

text \<open>
  The body of a multipart request, part by part: a text field with its name and its
  bytes, or a file with the name of its form field, the file name of its
  \<^verbatim>\<open>Content-Disposition\<close> as the parser decodes it, and its bytes. A request that is not
  multipart is passed on by multer untouched, as one without parts is.
\<close>

datatype part = Field jsstring bytes | FilePart jsstring jsstring bytes

type_synonym request = "part list"

text \<open>The field name \<^verbatim>\<open>'file'\<close> of \<^verbatim>\<open>upload.single('file')\<close>.\<close>

definition file_field :: jsstring where
  "file_field = [0x66, 0x69, 0x6C, 0x65]"

definition backslash :: jschar where
  "backslash = 0x5C"

definition dot :: jschar where
  "dot = 0x2E"

text \<open>
  The parser under multer (busboy, \<^verbatim>\<open>preservePath\<close> not set: \<^verbatim>\<open>multer({ storage })\<close>)
  hands over the base name of the file name only: what follows the last \<^verbatim>\<open>/\<close> or
  \<^verbatim>\<open>\\<close>, and nothing if that is \<^verbatim>\<open>.\<close> or \<^verbatim>\<open>..\<close>. This is \<^verbatim>\<open>file.originalname\<close>.
\<close>

definition busboy_basename :: "jsstring \<Rightarrow> jsstring" where
  "busboy_basename nm =
     (let b = rev (takeWhile (\<lambda>c. c \<noteq> slash \<and> c \<noteq> backslash) (rev nm))
      in if b = [dot] \<or> b = [dot, dot] then [] else b)"

text \<open>
  The parser's limit on the bytes of a text field, 1 MB, which applies because the source
  gives multer no \<^verbatim>\<open>limits\<close>.
\<close>

definition fieldSize :: nat where
  "fieldSize = 1048576"

text \<open>
  What the disk storage reports about a file it stored under the name \<open>orig\<close> that multer
  gave it: that name as \<^verbatim>\<open>originalname\<close>, the name the callback chose and the path
  \<^verbatim>\<open>path.join(destination, filename)\<close>.
\<close>

definition handle_file :: "env \<Rightarrow> jsstring \<Rightarrow> file_info" where
  "handle_file e orig =
     (let nm = storage_filename (now e) orig
      in \<lparr>originalname = orig, file_filename = nm, file_path = path_join (UPLOAD_DIR e) nm\<rparr>)"

text \<open>When multer gives up, it deletes the file it has stored for the request.\<close>

definition remove_uploaded :: "file_info option \<Rightarrow> server_state \<Rightarrow> server_state" where
  "remove_uploaded got s =
     (case got of None \<Rightarrow> s | Some f \<Rightarrow> s\<lparr>disk := (disk s)(file_path f := None)\<rparr>)"

text \<open>
  \<^verbatim>\<open>upload.single('file')\<close> with the disk storage, over the parts in their order; \<open>got\<close>
  is the file accepted so far. A text field over the size limit makes multer give up. A
  file whose name is empty is skipped. Any other file must be the first one of the field
  \<^verbatim>\<open>file\<close>, or multer gives up (an unexpected file); that one is written to
  \<^verbatim>\<open>UPLOAD_DIR\<close> under the name the callback returns. At the end \<^verbatim>\<open>req.file\<close> is the
  accepted file, or undefined. Giving up is \<open>Inl\<close>: multer passes its error to Express,
  and the handler of the route is not called.
\<close>

fun multer_parts ::
  "env \<Rightarrow> part list \<Rightarrow> file_info option \<Rightarrow> server_state \<Rightarrow> (exn + file_info option) \<times> server_state"
where
  "multer_parts e [] got s = (Inr got, s)"
| "multer_parts e (Field n v # ps) got s =
     (if fieldSize < length v then (Inl MulterError, remove_uploaded got s)
      else multer_parts e ps got s)"
| "multer_parts e (FilePart fld nm c # ps) got s =
     (let orig = busboy_basename nm in
      if orig = [] then multer_parts e ps got s
      else if fld \<noteq> file_field \<or> got \<noteq> None then (Inl MulterError, remove_uploaded got s)
      else
        (let f = handle_file e orig
         in multer_parts e ps (Some f) (s\<lparr>disk := (disk s)(file_path f \<mapsto> c)\<rparr>)))"

definition multer_single ::
  "env \<Rightarrow> request \<Rightarrow> server_state \<Rightarrow> (exn + file_info option) \<times> server_state"
where
  "multer_single e req s = multer_parts e req None s"

section \<open>The request handlers\<close>

text \<open>
  The test \<^verbatim>\<open>if (process.env.AZURE_STORAGE_CONNECTION_STRING)\<close>: the variable is set,
  and not to the empty string, which is falsy.
\<close>

definition storage_configured :: "env \<Rightarrow> bool" where
  "storage_configured e =
     (case AZURE_STORAGE_CONNECTION_STRING e of None \<Rightarrow> False | Some conn \<Rightarrow> truthy_string conn)"

text \<open>The second argument of the call: \<^verbatim>\<open>req.file.filename || path.basename(filepath)\<close>.\<close>

definition blob_name :: "file_info \<Rightarrow> jsstring" where
  "blob_name f =
     (if truthy_string (file_filename f) then file_filename f else basename (file_path f))"

text \<open>
  The block that chooses \<^verbatim>\<open>blobUrl\<close>: the local path, unless the connection string is
  set and the upload to the blob store succeeds. A failure of that upload is logged and
  swallowed.
\<close>

definition choose_blob_url :: "env \<Rightarrow> file_info \<Rightarrow> server_state \<Rightarrow> jsstring \<times> server_state" where
  "choose_blob_url e f s =
     (let filepath = file_path f in
      if storage_configured e then
        (case uploadLocalFile e filepath (blob_name f) of
           Inr remoteUrl \<Rightarrow> (remoteUrl, s)
         | Inl err \<Rightarrow> (filepath, s\<lparr>console := console s @ [AzureBlobUploadFailed err]\<rparr>))
      else (filepath, s))"

text \<open>\<^verbatim>\<open>x || null\<close> and \<^verbatim>\<open>x || []\<close> for the three properties of the analysis.\<close>

definition type_or_null :: "jsstring option \<Rightarrow> jsstring option" where
  "type_or_null x = (case x of None \<Rightarrow> None | Some t \<Rightarrow> if truthy_string t then Some t else None)"

definition confidence_or_null :: "jsnum option \<Rightarrow> jsnum option" where
  "confidence_or_null x = (case x of None \<Rightarrow> None | Some c \<Rightarrow> if truthy_num c then Some c else None)"

definition fields_or_empty :: "extracted_field list option \<Rightarrow> extracted_field list" where
  "fields_or_empty x = (case x of None \<Rightarrow> [] | Some fs \<Rightarrow> fs)"

text \<open>
  The body of the \<^verbatim>\<open>try\<close> of \<^verbatim>\<open>POST /upload\<close>: the response it sends, or the
  exception that leaves it, with the state reached by then.
\<close>

definition upload_try :: "env \<Rightarrow> file_info option \<Rightarrow> server_state \<Rightarrow> (exn + response) \<times> server_state" where
  "upload_try e reqfile s =
     (case reqfile of
        None \<Rightarrow> (Inr (Response 400 (Failure ''no file uploaded'')), s)
      | Some f \<Rightarrow>
          (let filepath = file_path f;
               fname = originalname f;
               i = uuidv4 e;
               (blobUrl, s1) = choose_blob_url e f s
           in case insertDocument (insert_fails e) i fname blobUrl Processing s1 of
                Inl err \<Rightarrow> (Inl err, s1)
              | Inr s2 \<Rightarrow>
                  (case analyze e blobUrl filepath of
                     Inl err \<Rightarrow> (Inl err, s2)
                   | Inr a \<Rightarrow>
                       (case saveExtractedFields (save_fails e) i
                               (fields_or_empty (field_list a)) s2 of
                          Inl err \<Rightarrow> (Inl err, s2)
                        | Inr s3 \<Rightarrow>
                            (case updateDocumentStatus (update_fails e) i Processed
                                    (type_or_null (documentType a))
                                    (confidence_or_null (confidence a)) s3 of
                               Inl err \<Rightarrow> (Inl err, s3)
                             | Inr s4 \<Rightarrow> (Inr (Response 200 (UploadOk i a)), s4))))))"

text \<open>The \<^verbatim>\<open>catch\<close> of \<^verbatim>\<open>POST /upload\<close>: log the error, answer 500.\<close>

definition upload_catch :: "exn \<Rightarrow> server_state \<Rightarrow> response \<times> server_state" where
  "upload_catch err s =
     (Response 500 (Failure ''upload failed''), s\<lparr>console := console s @ [Logged err]\<rparr>)"

text \<open>The handler of \<^verbatim>\<open>POST /upload\<close>: the \<^verbatim>\<open>try\<close> with its \<^verbatim>\<open>catch\<close>.\<close>

definition upload_handler :: "env \<Rightarrow> file_info option \<Rightarrow> server_state \<Rightarrow> response \<times> server_state" where
  "upload_handler e reqfile s =
     (case upload_try e reqfile s of
        (Inr r, s') \<Rightarrow> (r, s')
      | (Inl err, s') \<Rightarrow> upload_catch err s')"

text \<open>
  An error passed to Express, for which the source installs no handler: Express logs it
  and answers 500 with a page of its own.
\<close>

definition express_error :: "exn \<Rightarrow> server_state \<Rightarrow> response \<times> server_state" where
  "express_error err s = (Response 500 ErrorPage, s\<lparr>console := console s @ [Logged err]\<rparr>)"

text \<open>
  The route \<^verbatim>\<open>POST /upload\<close>: multer first, then the handler, unless multer gave up.
\<close>

definition post_upload :: "env \<Rightarrow> request \<Rightarrow> server_state \<Rightarrow> response \<times> server_state" where
  "post_upload e req s =
     (case multer_single e req s of
        (Inl err, s1) \<Rightarrow> express_error err s1
      | (Inr f, s1) \<Rightarrow> upload_handler e f s1)"

text \<open>The handler of \<^verbatim>\<open>GET /document/:id\<close>.\<close>

definition get_document :: "env \<Rightarrow> jsstring \<Rightarrow> server_state \<Rightarrow> response \<times> server_state" where
  "get_document e i s =
     (case getDocument (getDocument_fails e) i s of
        Inl err \<Rightarrow> (Response 500 (Failure ''db error''), s\<lparr>console := console s @ [Logged err]\<rparr>)
      | Inr None \<Rightarrow> (Response 404 (Failure ''not found''), s)
      | Inr (Some doc) \<Rightarrow>
          (case getFields (getFields_fails e) i s of
             Inl err \<Rightarrow>
               (Response 500 (Failure ''db error''), s\<lparr>console := console s @ [Logged err]\<rparr>)
           | Inr fs \<Rightarrow> (Response 200 (DocumentOk doc fs), s)))"

section \<open>The upload handler, one awaited call at a time\<close>

text \<open>
  The handler is an \<^verbatim>\<open>async\<close> function: it gives up control at every \<^verbatim>\<open>await\<close>, and
  the handlers of other requests may run in between. A request in flight is at one of
  these points, holding the local variables it still needs; \<open>Done\<close> is a request that has
  been answered.
\<close>

datatype pc =
    AwaitBlob file_info jsstring
  | AwaitInsert file_info jsstring jsstring
  | AwaitAnalyze file_info jsstring jsstring
  | AwaitSave jsstring analysis
  | AwaitUpdate jsstring analysis
  | Done response

text \<open>From the call of the handler to its first \<^verbatim>\<open>await\<close> (or to the early return).\<close>

definition upload_start :: "env \<Rightarrow> file_info option \<Rightarrow> server_state \<Rightarrow> pc \<times> server_state" where
  "upload_start e reqfile s =
     (case reqfile of
        None \<Rightarrow> (Done (Response 400 (Failure ''no file uploaded'')), s)
      | Some f \<Rightarrow>
          (if storage_configured e then AwaitBlob f (uuidv4 e)
           else AwaitInsert f (uuidv4 e) (file_path f), s))"

text \<open>The awaited call completes, and the handler runs on to its next \<^verbatim>\<open>await\<close>.\<close>

fun upload_step :: "env \<Rightarrow> pc \<Rightarrow> server_state \<Rightarrow> pc \<times> server_state" where
  "upload_step e (AwaitBlob f i) s =
     (case uploadLocalFile e (file_path f) (blob_name f) of
        Inr remoteUrl \<Rightarrow> (AwaitInsert f i remoteUrl, s)
      | Inl err \<Rightarrow>
          (AwaitInsert f i (file_path f),
           s\<lparr>console := console s @ [AzureBlobUploadFailed err]\<rparr>))"
| "upload_step e (AwaitInsert f i blobUrl) s =
     (case insertDocument (insert_fails e) i (originalname f) blobUrl Processing s of
        Inl err \<Rightarrow> (case upload_catch err s of (r, s') \<Rightarrow> (Done r, s'))
      | Inr s2 \<Rightarrow> (AwaitAnalyze f i blobUrl, s2))"
| "upload_step e (AwaitAnalyze f i blobUrl) s =
     (case analyze e blobUrl (file_path f) of
        Inl err \<Rightarrow> (case upload_catch err s of (r, s') \<Rightarrow> (Done r, s'))
      | Inr a \<Rightarrow> (AwaitSave i a, s))"
| "upload_step e (AwaitSave i a) s =
     (case saveExtractedFields (save_fails e) i (fields_or_empty (field_list a)) s of
        Inl err \<Rightarrow> (case upload_catch err s of (r, s') \<Rightarrow> (Done r, s'))
      | Inr s3 \<Rightarrow> (AwaitUpdate i a, s3))"
| "upload_step e (AwaitUpdate i a) s =
     (case updateDocumentStatus (update_fails e) i Processed
             (type_or_null (documentType a)) (confidence_or_null (confidence a)) s of
        Inl err \<Rightarrow> (case upload_catch err s of (r, s') \<Rightarrow> (Done r, s'))
      | Inr s4 \<Rightarrow> (Done (Response 200 (UploadOk i a)), s4))"
| "upload_step e (Done r) s = (Done r, s)"





text \<open>The server after its start with an empty store: nothing stored, nothing in flight.\<close>

definition empty_state :: server_state where
  "empty_state = \<lparr>documents = [], fields_tbl = [], disk = Map.empty, console = []\<rparr>"



section \<open>Notions used in the statements\<close>

text \<open>
  The insertion of the upload's row goes through: the store is not failing, and the
  generated id is not taken.
\<close>

definition insert_ok :: "env \<Rightarrow> server_state \<Rightarrow> bool" where
  "insert_ok e s = (\<not> insert_fails e \<and> uuidv4 e \<notin> set (map doc_id (documents s)))"

text \<open>The row the handler inserts for the file \<open>f\<close>, called in state \<open>s\<close>.\<close>

definition new_row :: "env \<Rightarrow> file_info \<Rightarrow> server_state \<Rightarrow> document" where
  "new_row e f s =
     \<lparr>doc_id = uuidv4 e, filename = originalname f, blob_url = fst (choose_blob_url e f s),
      status = Processing, document_type = None, doc_confidence = None\<rparr>"

text \<open>What the analyzer answers to the call the handler makes for the file \<open>f\<close>.\<close>

definition analyzer_result :: "env \<Rightarrow> file_info \<Rightarrow> server_state \<Rightarrow> exn + analysis" where
  "analyzer_result e f s = analyze e (fst (choose_blob_url e f s)) (file_path f)"

text \<open>
  A part is a text field; a text field is within the parser's size limit. A body has no
  file part when all its parts are text fields.
\<close>

fun is_field :: "part \<Rightarrow> bool" where
  "is_field (Field n v) = True"
| "is_field (FilePart fld nm c) = False"

fun within_limit :: "part \<Rightarrow> bool" where
  "within_limit (Field n v) = (length v \<le> fieldSize)"
| "within_limit (FilePart fld nm c) = True"



section \<open>Concrete requests\<close>

text \<open>
  An analysis with a type, a confidence and one field; an environment without cloud
  storage whose analyzer returns it and whose store works; a request with a file named
  \<^verbatim>\<open>a<space><tab>b\<close>; and a request with a text field only.
\<close>

definition ex_analysis :: analysis where
  "ex_analysis =
     \<lparr>documentType = Some [0x69, 0x6E, 0x76], confidence = Some (Num (9 / 10)),
      field_list = Some [\<lparr>field_name = [0x6E], field_value = [0x76]\<rparr>]\<rparr>"

definition ex_env :: env where
  "ex_env =
     \<lparr>UPLOAD_DIR = [0x75], AZURE_STORAGE_CONNECTION_STRING = None, now = 1234,
      uuidv4 = [0x69, 0x64],
      uploadLocalFile = (\<lambda>p n. Inl BlobError),
      analyze = (\<lambda>u p. Inr ex_analysis),
      insert_fails = False, save_fails = False, update_fails = False,
      getDocument_fails = False, getFields_fails = False\<rparr>"

definition ex_request :: request where
  "ex_request = [FilePart file_field [0x61, 0x20, 0x09, 0x62] [1, 2]]"

definition ex_text_request :: request where
  "ex_text_request = [Field [0x6B] [0x76]]"


definition path_request :: request where
  "path_request = [FilePart file_field [0x78, 0x2F, 0x61, 0x20, 0x62] [1, 2]]"

text \<open>
  The file as the handler sees it; an analysis like the first one, but with the
  confidence 0, and an environment whose analyzer returns it; an environment with cloud
  storage configured and failing.
\<close>

definition ex_file :: file_info where
  "ex_file = \<lparr>originalname = [0x61], file_filename = [0x31, 0x5F, 0x61],
              file_path = [0x75, 0x2F, 0x31, 0x5F, 0x61]\<rparr>"

definition zero_analysis :: analysis where
  "zero_analysis =
     \<lparr>documentType = Some [0x69, 0x6E, 0x76], confidence = Some (Num 0),
      field_list = Some [\<lparr>field_name = [0x6E], field_value = [0x76]\<rparr>]\<rparr>"

definition zero_env :: env where
  "zero_env = ex_env\<lparr>analyze := (\<lambda>u p. Inr zero_analysis)\<rparr>"

definition cloud_env :: env where
  "cloud_env = ex_env\<lparr>AZURE_STORAGE_CONNECTION_STRING := Some [0x63]\<rparr>"

text \<open>An environment whose analyzer fails.\<close>

definition fail_env :: env where
  "fail_env = ex_env\<lparr>analyze := (\<lambda>u p. Inl AnalyzerError)\<rparr>"


section \<open>The upload handler, step by step\<close>

lemma choose_blob_url_tables:
  "documents (snd (choose_blob_url e f s)) = documents s"
  "fields_tbl (snd (choose_blob_url e f s)) = fields_tbl s"
  "disk (snd (choose_blob_url e f s)) = disk s"
  by (simp_all add: choose_blob_url_def Let_def split: sum.splits)

lemma choose_blob_url_local:
  "\<not> storage_configured e \<Longrightarrow> choose_blob_url e f s = (file_path f, s)"
  by (simp add: choose_blob_url_def)

lemma choose_blob_url_cases:
  obtains u s1 where "choose_blob_url e f s = (u, s1)" "documents s1 = documents s"
    "fields_tbl s1 = fields_tbl s" "disk s1 = disk s"
  using choose_blob_url_tables [of e f s] by (cases "choose_blob_url e f s") simp

lemma update_fresh:
  "i \<notin> set (map doc_id ds) \<Longrightarrow> map (\<lambda>d. if doc_id d = i then g d else d) ds = ds"
  by (induction ds) auto

lemma upload_success:
  assumes "insert_ok e s"
    and "analyzer_result e f s = Inr a"
    and "\<not> save_fails e" and "\<not> update_fails e"
  shows "upload_handler e (Some f) s =
     (Response 200 (UploadOk (uuidv4 e) a),
      (snd (choose_blob_url e f s))
        \<lparr>documents := documents s @
           [(new_row e f s)\<lparr>status := Processed,
               document_type := type_or_null (documentType a),
               doc_confidence := confidence_or_null (confidence a)\<rparr>],
         fields_tbl := fields_tbl s @ field_rows (uuidv4 e) (fields_or_empty (field_list a))\<rparr>)"
proof -
  obtain u s1 where c: "choose_blob_url e f s = (u, s1)" "documents s1 = documents s"
    "fields_tbl s1 = fields_tbl s"
    by (rule choose_blob_url_cases)
  with assms show ?thesis
    by (simp add: upload_handler_def upload_try_def Let_def insert_ok_def insertDocument_def
        saveExtractedFields_def updateDocumentStatus_def new_row_def update_fresh
        analyzer_result_def)
qed

lemma upload_200_only_success:
  assumes "upload_handler e (Some f) s = (Response 200 b, s')"
  shows "insert_ok e s \<and> \<not> save_fails e \<and> \<not> update_fails e \<and>
     (\<exists>a. analyzer_result e f s = Inr a \<and> b = UploadOk (uuidv4 e) a)"
proof -
  obtain u s1 where c: "choose_blob_url e f s = (u, s1)" "documents s1 = documents s"
    "fields_tbl s1 = fields_tbl s"
    by (rule choose_blob_url_cases)
  with assms show ?thesis
    by (auto simp: upload_handler_def upload_try_def Let_def insert_ok_def insertDocument_def
        saveExtractedFields_def updateDocumentStatus_def upload_catch_def analyzer_result_def
        split: sum.splits if_splits)
qed

lemma upload_failure:
  assumes "\<not> insert_ok e s \<or> (\<exists>err. analyzer_result e f s = Inl err) \<or>
           save_fails e \<or> update_fails e"
  shows "fst (upload_handler e (Some f) s) = Response 500 (Failure ''upload failed'')"
    and "disk (snd (upload_handler e (Some f) s)) = disk s"
    and "documents (snd (upload_handler e (Some f) s)) =
           (if insert_ok e s then documents s @ [new_row e f s] else documents s)"
    and "fields_tbl (snd (upload_handler e (Some f) s)) =
           (case analyzer_result e f s of
              Inl err \<Rightarrow> fields_tbl s
            | Inr a \<Rightarrow>
                if insert_ok e s \<and> \<not> save_fails e
                then fields_tbl s @ field_rows (uuidv4 e) (fields_or_empty (field_list a))
                else fields_tbl s)"
proof -
  obtain u s1 where c: "choose_blob_url e f s = (u, s1)" "documents s1 = documents s"
    "fields_tbl s1 = fields_tbl s" "disk s1 = disk s"
    by (rule choose_blob_url_cases)
  show "fst (upload_handler e (Some f) s) = Response 500 (Failure ''upload failed'')"
    using assms c
    by (auto simp: upload_handler_def upload_try_def Let_def insert_ok_def insertDocument_def
        saveExtractedFields_def updateDocumentStatus_def upload_catch_def analyzer_result_def
        split: sum.splits)
  show "disk (snd (upload_handler e (Some f) s)) = disk s"
    using c
    by (auto simp: upload_handler_def upload_try_def Let_def insertDocument_def
        saveExtractedFields_def updateDocumentStatus_def upload_catch_def
        split: sum.splits)
  show "documents (snd (upload_handler e (Some f) s)) =
           (if insert_ok e s then documents s @ [new_row e f s] else documents s)"
    using assms c
    by (auto simp: upload_handler_def upload_try_def Let_def insert_ok_def insertDocument_def
        saveExtractedFields_def updateDocumentStatus_def upload_catch_def analyzer_result_def
        new_row_def split: sum.splits)
  show "fields_tbl (snd (upload_handler e (Some f) s)) =
           (case analyzer_result e f s of
              Inl err \<Rightarrow> fields_tbl s
            | Inr a \<Rightarrow>
                if insert_ok e s \<and> \<not> save_fails e
                then fields_tbl s @ field_rows (uuidv4 e) (fields_or_empty (field_list a))
                else fields_tbl s)"
    using assms c
    by (auto simp: upload_handler_def upload_try_def Let_def insert_ok_def insertDocument_def
        saveExtractedFields_def updateDocumentStatus_def upload_catch_def analyzer_result_def
        split: sum.splits)
qed

lemma upload_outcome:
  "(insert_ok e s \<and> \<not> save_fails e \<and> \<not> update_fails e \<and> (\<exists>a. analyzer_result e f s = Inr a)) \<or>
   (\<not> insert_ok e s \<or> (\<exists>err. analyzer_result e f s = Inl err) \<or> save_fails e \<or> update_fails e)"
  by (cases "analyzer_result e f s") auto

lemma upload_handler_none:
  "upload_handler e None s = (Response 400 (Failure ''no file uploaded''), s)"
  by (simp add: upload_handler_def upload_try_def)

lemma upload_handler_file_status:
  "fst (upload_handler e (Some f) s) \<noteq> Response 400 b"
proof -
  consider (ok) a where "insert_ok e s" "\<not> save_fails e" "\<not> update_fails e"
      "analyzer_result e f s = Inr a"
    | (failed) "\<not> insert_ok e s \<or> (\<exists>err. analyzer_result e f s = Inl err) \<or>
        save_fails e \<or> update_fails e"
    using upload_outcome [of e s f] by auto
  then show ?thesis
  proof cases
    case ok
    then show ?thesis by (simp add: upload_success [OF ok(1) ok(4) ok(2) ok(3)])
  next
    case failed
    then show ?thesis by (simp add: upload_failure(1) [OF failed])
  qed
qed

section \<open>What multer hands over\<close>

lemma multer_parts_tables:
  "documents (snd (multer_parts e ps got s)) = documents s"
  "fields_tbl (snd (multer_parts e ps got s)) = fields_tbl s"
  by (induction e ps got s rule: multer_parts.induct)
     (simp_all add: Let_def remove_uploaded_def split: option.splits)

lemma multer_single_tables:
  "documents (snd (multer_single e req s)) = documents s"
  "fields_tbl (snd (multer_single e req s)) = fields_tbl s"
  by (simp_all add: multer_single_def multer_parts_tables)

lemma multer_parts_got:
  "multer_parts e ps (Some g) s = (Inr r, s') \<Longrightarrow> r = Some g \<and> s' = s"
proof (induction ps)
  case Nil
  then show ?case by simp
next
  case (Cons p ps)
  then show ?case by (cases p) (auto simp: Let_def split: if_splits)
qed

lemma multer_parts_none:
  "multer_parts e ps None s = (Inr None, s') \<Longrightarrow>
     s' = s \<and> multer_parts e' ps None s = (Inr None, s)"
proof (induction ps)
  case Nil
  then show ?case by simp
next
  case (Cons p ps)
  then show ?case
    by (cases p) (auto simp: Let_def split: if_splits dest: multer_parts_got)
qed

lemma multer_parts_file:
  "multer_parts e ps None s = (Inr (Some f), s') \<Longrightarrow>
     \<exists>nm c. FilePart file_field nm c \<in> set ps \<and> busboy_basename nm \<noteq> [] \<and>
            f = handle_file e (busboy_basename nm) \<and>
            s' = s\<lparr>disk := (disk s)(file_path f \<mapsto> c)\<rparr>"
proof (induction ps)
  case Nil
  then show ?case by simp
next
  case (Cons p ps)
  show ?case
  proof (cases p)
    case (Field n v)
    with Cons show ?thesis by (auto split: if_splits)
  next
    case (FilePart fld nm c)
    show ?thesis
    proof (cases "busboy_basename nm = []")
      case True
      with Cons FilePart show ?thesis by auto
    next
      case False
      with Cons.prems FilePart have fld: "fld = file_field"
        and m: "multer_parts e ps (Some (handle_file e (busboy_basename nm)))
                  (s\<lparr>disk := (disk s)(file_path (handle_file e (busboy_basename nm)) \<mapsto> c)\<rparr>) =
                (Inr (Some f), s')"
        by (auto simp: Let_def split: if_splits)
      from multer_parts_got [OF m] have "f = handle_file e (busboy_basename nm)"
        and "s' = s\<lparr>disk := (disk s)(file_path f \<mapsto> c)\<rparr>"
        by simp_all
      moreover from fld FilePart have "FilePart file_field nm c \<in> set (p # ps)" by simp
      ultimately show ?thesis using False by blast
    qed
  qed
qed

lemma multer_no_file:
  "list_all is_field req \<Longrightarrow> list_all within_limit req \<Longrightarrow>
     multer_single e req s = (Inr None, s)"
  unfolding multer_single_def
proof (induction req)
  case Nil
  show ?case by simp
next
  case (Cons p ps)
  then show ?case by (cases p) simp_all
qed

lemma post_upload_passed:
  "multer_single e req s = (Inr f, s1) \<Longrightarrow> post_upload e req s = upload_handler e f s1"
  by (simp add: post_upload_def)

lemma post_upload_rejected:
  "multer_single e req s = (Inl err, s1) \<Longrightarrow> post_upload e req s = express_error err s1"
  by (simp add: post_upload_def)

lemma post_upload_400:
  assumes "fst (post_upload e req s) = Response 400 b"
  shows "multer_single e req s = (Inr None, s)"
proof -
  obtain r s1 where m: "multer_single e req s = (r, s1)" by (cases "multer_single e req s")
  show ?thesis
  proof (cases r)
    case (Inl err)
    with assms m show ?thesis by (simp add: post_upload_def express_error_def)
  next
    case (Inr f)
    show ?thesis
    proof (cases f)
      case None
      with m Inr have "multer_parts e req None s = (Inr None, s1)"
        by (simp add: multer_single_def)
      from multer_parts_none [OF this] m Inr None show ?thesis by simp
    next
      case (Some g)
      with assms m Inr show ?thesis
        by (simp add: post_upload_def upload_handler_file_status)
    qed
  qed
qed

section \<open>Requests without a file\<close>




text \<open>
  C10: a \<^verbatim>\<open>POST /upload\<close> answered 400 is the one rejected for its missing file; it
  leaves the state as it was (no document row, no field row, no file, no log entry), and
  its outcome does not depend on the environment: no id is generated, neither the store
  nor the analyzer is called. This holds of every request whose body has no file part
  and whose text fields are within the size limit, and of the handler whenever it is
  called without a file.
\<close>

theorem C10_no_file_no_effect:
  "(fst (post_upload e req s) = Response 400 b \<longrightarrow>
      b = Failure ''no file uploaded'' \<and> snd (post_upload e req s) = s \<and>
      post_upload e' req s = post_upload e req s) \<and>
   (list_all is_field req \<and> list_all within_limit req \<longrightarrow>
      snd (post_upload e req s) = s \<and> post_upload e' req s = post_upload e req s) \<and>
   snd (upload_handler e None s) = s \<and>
   upload_handler e' None s = upload_handler e None s"
proof -
  have "snd (post_upload e req s) = s \<and> post_upload e' req s = post_upload e req s"
    if "list_all is_field req" "list_all within_limit req"
    using multer_no_file [OF that, of e s] multer_no_file [OF that, of e' s]
    by (simp add: post_upload_passed upload_handler_none)
  moreover
  have "b = Failure ''no file uploaded'' \<and> snd (post_upload e req s) = s \<and>
      post_upload e' req s = post_upload e req s"
    if r: "fst (post_upload e req s) = Response 400 b"
  proof -
    from post_upload_400 [OF r] have m: "multer_single e req s = (Inr None, s)" .
    then have "multer_parts e req None s = (Inr None, s)" by (simp add: multer_single_def)
    from multer_parts_none [OF this, of e']
    have m': "multer_single e' req s = (Inr None, s)" by (simp add: multer_single_def)
    from r show ?thesis
      by (simp add: post_upload_passed [OF m] post_upload_passed [OF m'] upload_handler_none)
  qed
  ultimately show ?thesis by (simp add: upload_handler_none)
qed

theorem C10_no_file_no_effect_witness:
  "fst (post_upload ex_env ex_text_request empty_state) =
     Response 400 (Failure ''no file uploaded'') \<and>
   list_all is_field ex_text_request \<and> list_all within_limit ex_text_request \<and>
   snd (post_upload ex_env ex_text_request empty_state) = empty_state \<and>
   post_upload (ex_env\<lparr>uuidv4 := [], insert_fails := True\<rparr>) ex_text_request empty_state =
     post_upload ex_env ex_text_request empty_state"
proof -
  have r: "fst (post_upload ex_env ex_text_request empty_state) =
      Response 400 (Failure ''no file uploaded'')"
    by (simp add: post_upload_def multer_single_def ex_text_request_def fieldSize_def
        upload_handler_none)
  have h: "list_all is_field ex_text_request \<and> list_all within_limit ex_text_request"
    by (simp add: ex_text_request_def fieldSize_def)
  note c = C10_no_file_no_effect [of ex_env ex_text_request empty_state
      "Failure ''no file uploaded''" "ex_env\<lparr>uuidv4 := [], insert_fails := True\<rparr>"]
  from c [THEN conjunct1, rule_format, OF r]
  have a: "snd (post_upload ex_env ex_text_request empty_state) = empty_state"
    by (rule conjunct2 [THEN conjunct1])
  from c [THEN conjunct2, THEN conjunct1, rule_format, OF h]
  have b: "post_upload (ex_env\<lparr>uuidv4 := [], insert_fails := True\<rparr>) ex_text_request
      empty_state = post_upload ex_env ex_text_request empty_state"
    by (rule conjunct2)
  from r h a b show ?thesis by (intro conjI) simp_all
qed

lemma find_fresh_append:
  "i \<notin> set (map doc_id ds) \<Longrightarrow>
     find (\<lambda>d. doc_id d = i) (ds @ [r]) = (if doc_id r = i then Some r else None)"
  by (induction ds) auto

lemma filter_field_rows:
  "filter (\<lambda>r. document_id r = i) (field_rows i fs) = field_rows i fs"
  by (induction fs) (auto simp: field_rows_def)

lemma post_upload_200:
  assumes "post_upload e req s = (Response 200 b, s')"
  shows "\<exists>f s1. multer_single e req s = (Inr (Some f), s1) \<and>
           upload_handler e (Some f) s1 = (Response 200 b, s') \<and>
           documents s1 = documents s \<and> fields_tbl s1 = fields_tbl s"
proof -
  obtain r s1 where m: "multer_single e req s = (r, s1)" by (cases "multer_single e req s")
  from multer_single_tables [of e req s] m
  have t: "documents s1 = documents s" "fields_tbl s1 = fields_tbl s" by simp_all
  show ?thesis
  proof (cases r)
    case (Inl err)
    with assms m show ?thesis by (simp add: post_upload_def express_error_def)
  next
    case (Inr g)
    show ?thesis
    proof (cases g)
      case None
      with assms m Inr show ?thesis by (simp add: post_upload_def upload_handler_none)
    next
      case (Some f)
      with assms m Inr t show ?thesis by (simp add: post_upload_def)
    qed
  qed
qed

lemma get_after_upload:
  assumes "upload_handler e (Some f) s = (Response 200 (UploadOk i a), s')"
    and "\<not> getDocument_fails e'" and "\<not> getFields_fails e'"
  shows "get_document e' i s' =
     (Response 200
        (DocumentOk
           ((new_row e f s)\<lparr>status := Processed,
               document_type := type_or_null (documentType a),
               doc_confidence := confidence_or_null (confidence a)\<rparr>)
           (filter (\<lambda>r. document_id r = i) (fields_tbl s'))), s')"
    and "i = uuidv4 e"
    and "documents s' =
           documents s @
           [(new_row e f s)\<lparr>status := Processed,
               document_type := type_or_null (documentType a),
               doc_confidence := confidence_or_null (confidence a)\<rparr>]"
    and "fields_tbl s' = fields_tbl s @ field_rows i (fields_or_empty (field_list a))"
    and "find (\<lambda>d. doc_id d = i) (documents s') =
           Some ((new_row e f s)\<lparr>status := Processed,
               document_type := type_or_null (documentType a),
               doc_confidence := confidence_or_null (confidence a)\<rparr>)"
proof -
  from upload_200_only_success [OF assms(1)]
  have ok: "insert_ok e s" "\<not> save_fails e" "\<not> update_fails e"
    and a: "analyzer_result e f s = Inr a" and i: "i = uuidv4 e"
    by auto
  from upload_success [OF ok(1) a ok(2,3)] assms(1)
  have s': "s' = (snd (choose_blob_url e f s))
        \<lparr>documents := documents s @
           [(new_row e f s)\<lparr>status := Processed,
               document_type := type_or_null (documentType a),
               doc_confidence := confidence_or_null (confidence a)\<rparr>],
         fields_tbl := fields_tbl s @ field_rows (uuidv4 e) (fields_or_empty (field_list a))\<rparr>"
    by simp
  have fresh: "uuidv4 e \<notin> set (map doc_id (documents s))"
    using ok(1) by (simp add: insert_ok_def)
  show "i = uuidv4 e" by (rule i)
  show d: "documents s' =
           documents s @
           [(new_row e f s)\<lparr>status := Processed,
               document_type := type_or_null (documentType a),
               doc_confidence := confidence_or_null (confidence a)\<rparr>]"
    by (simp add: s')
  show "fields_tbl s' = fields_tbl s @ field_rows i (fields_or_empty (field_list a))"
    by (simp add: s' i)
  show "find (\<lambda>d. doc_id d = i) (documents s') =
           Some ((new_row e f s)\<lparr>status := Processed,
               document_type := type_or_null (documentType a),
               doc_confidence := confidence_or_null (confidence a)\<rparr>)"
    using fresh by (simp add: d i find_fresh_append new_row_def)
  show "get_document e' i s' =
     (Response 200
        (DocumentOk
           ((new_row e f s)\<lparr>status := Processed,
               document_type := type_or_null (documentType a),
               doc_confidence := confidence_or_null (confidence a)\<rparr>)
           (filter (\<lambda>r. document_id r = i) (fields_tbl s'))), s')"
    using assms(2,3) fresh
    by (simp add: get_document_def getDocument_def getFields_def s' i find_fresh_append
        filter_field_rows new_row_def)
qed

section \<open>Uploading, then reading back\<close>

lemma ex_env_simps:
  "insert_fails ex_env = False" "save_fails ex_env = False" "update_fails ex_env = False"
  "getDocument_fails ex_env = False" "getFields_fails ex_env = False"
  "uuidv4 ex_env = [0x69, 0x64]" "AZURE_STORAGE_CONNECTION_STRING ex_env = None"
  "analyze ex_env = (\<lambda>u p. Inr ex_analysis)" "UPLOAD_DIR ex_env = [0x75]" "now ex_env = 1234"
  "uploadLocalFile ex_env = (\<lambda>p n. Inl BlobError)"
  by (simp_all add: ex_env_def)

lemma empty_state_simps:
  "documents empty_state = []" "fields_tbl empty_state = []" "console empty_state = []"
  "disk empty_state = Map.empty"
  by (simp_all add: empty_state_def)

lemma ex_upload:
  "upload_handler ex_env (Some ex_file) empty_state =
     (Response 200 (UploadOk [0x69, 0x64] ex_analysis),
      empty_state
        \<lparr>documents :=
           [\<lparr>doc_id = [0x69, 0x64], filename = [0x61],
             blob_url = [0x75, 0x2F, 0x31, 0x5F, 0x61], status = Processed,
             document_type = Some [0x69, 0x6E, 0x76], doc_confidence = Some (Num (9 / 10))\<rparr>],
         fields_tbl :=
           [\<lparr>document_id = [0x69, 0x64],
             row_field = \<lparr>field_name = [0x6E], field_value = [0x76]\<rparr>\<rparr>]\<rparr>)"
  by (simp add: upload_handler_def upload_try_def Let_def choose_blob_url_def
      storage_configured_def insertDocument_def saveExtractedFields_def
      updateDocumentStatus_def ex_env_def empty_state_def ex_file_def ex_analysis_def
      type_or_null_def confidence_or_null_def fields_or_empty_def field_rows_def
      truthy_string_def truthy_num_def)

text \<open>
  C1: when \<^verbatim>\<open>POST /upload\<close> answers 200 with a \<^verbatim>\<open>documentId\<close>, a
  \<^verbatim>\<open>GET /document/:id\<close> for that id, served next by a store that is not failing, answers
  200 with the row of the documents table that has this id, which the upload appended
  and whose status is \<^verbatim>\<open>processed\<close>, and with all the field rows of the table for
  that id: those the table already held for it, followed by the rows of the fields of the
  returned analysis, which the upload appended.
\<close>

theorem C1_upload_then_get:
  assumes "post_upload e req s = (Response 200 (UploadOk i a), s')"
    and "\<not> getDocument_fails e'" and "\<not> getFields_fails e'"
  shows "\<exists>d. get_document e' i s' =
           (Response 200
              (DocumentOk d (filter (\<lambda>r. document_id r = i) (fields_tbl s'))), s') \<and>
         d \<in> set (documents s') \<and>
         find (\<lambda>d. doc_id d = i) (documents s') = Some d \<and>
         documents s' = documents s @ [d] \<and>
         doc_id d = i \<and> status d = Processed \<and>
         fields_tbl s' = fields_tbl s @ field_rows i (fields_or_empty (field_list a)) \<and>
         filter (\<lambda>r. document_id r = i) (fields_tbl s') =
           filter (\<lambda>r. document_id r = i) (fields_tbl s) @
           field_rows i (fields_or_empty (field_list a))"
proof -
  from post_upload_200 [OF assms(1)] obtain f s1
    where u: "upload_handler e (Some f) s1 = (Response 200 (UploadOk i a), s')"
      and t: "documents s1 = documents s" "fields_tbl s1 = fields_tbl s"
    by blast
  let ?d = "(new_row e f s1)\<lparr>status := Processed,
               document_type := type_or_null (documentType a),
               doc_confidence := confidence_or_null (confidence a)\<rparr>"
  note g = get_after_upload [OF u assms(2,3)]
  have 1: "get_document e' i s' =
           (Response 200
              (DocumentOk ?d (filter (\<lambda>r. document_id r = i) (fields_tbl s'))), s')"
    by (rule g(1))
  have 2: "documents s' = documents s @ [?d]" using g(3) t by simp
  have 3: "fields_tbl s' = fields_tbl s @ field_rows i (fields_or_empty (field_list a))"
    using g(4) t by simp
  have 4: "find (\<lambda>d. doc_id d = i) (documents s') = Some ?d" by (rule g(5))
  have 5: "doc_id ?d = i" "status ?d = Processed" using g(2) by (simp_all add: new_row_def)
  have 6: "?d \<in> set (documents s')" unfolding 2 by simp
  have 7: "filter (\<lambda>r. document_id r = i) (fields_tbl s') =
           filter (\<lambda>r. document_id r = i) (fields_tbl s) @
           field_rows i (fields_or_empty (field_list a))"
    unfolding 3 by (simp add: filter_field_rows)
  show ?thesis
    by (rule exI [of _ ?d]) (intro conjI; fact)
qed

lemma ex_multer:
  "UPLOAD_DIR e = [0x75] \<Longrightarrow> now e = 1234 \<Longrightarrow>
   multer_single e ex_request empty_state =
     (Inr (Some \<lparr>originalname = [0x61, 0x20, 0x09, 0x62],
                 file_filename = [0x31, 0x32, 0x33, 0x34, 0x5F, 0x61, 0x5F, 0x62],
                 file_path = [0x75, 0x2F, 0x31, 0x32, 0x33, 0x34, 0x5F, 0x61, 0x5F, 0x62]\<rparr>),
      empty_state\<lparr>disk := [[0x75, 0x2F, 0x31, 0x32, 0x33, 0x34, 0x5F, 0x61, 0x5F, 0x62] \<mapsto> [1, 2]]\<rparr>)"
  by (simp add: multer_single_def ex_request_def busboy_basename_def file_field_def
      handle_file_def Let_def path_join_def storage_filename_def empty_state_def
      number_to_string.simps digit_def is_space_def underscore_def slash_def backslash_def
      dot_def)

lemma ex_post_upload_response:
  "fst (post_upload ex_env ex_request empty_state) =
     Response 200 (UploadOk [0x69, 0x64] ex_analysis)"
proof -
  have m: "UPLOAD_DIR ex_env = [0x75]" "now ex_env = 1234" by (simp_all add: ex_env_def)
  show ?thesis
    unfolding post_upload_passed [OF ex_multer [OF m]]
    by (simp add: upload_handler_def upload_try_def Let_def choose_blob_url_def
        storage_configured_def insertDocument_def saveExtractedFields_def
        updateDocumentStatus_def ex_env_def empty_state_def)
qed

theorem C1_upload_then_get_witness:
  "post_upload ex_env ex_request empty_state =
     (Response 200 (UploadOk [0x69, 0x64] ex_analysis),
      snd (post_upload ex_env ex_request empty_state)) \<and>
   \<not> getDocument_fails ex_env \<and> \<not> getFields_fails ex_env \<and>
   (\<exists>d. get_document ex_env [0x69, 0x64] (snd (post_upload ex_env ex_request empty_state)) =
           (Response 200
              (DocumentOk d
                 [\<lparr>document_id = [0x69, 0x64],
                   row_field = \<lparr>field_name = [0x6E], field_value = [0x76]\<rparr>\<rparr>]),
            snd (post_upload ex_env ex_request empty_state)) \<and>
        documents (snd (post_upload ex_env ex_request empty_state)) = [d] \<and>
        doc_id d = [0x69, 0x64] \<and> status d = Processed)"
proof -
  have u: "post_upload ex_env ex_request empty_state =
     (Response 200 (UploadOk [0x69, 0x64] ex_analysis),
      snd (post_upload ex_env ex_request empty_state))"
    using ex_post_upload_response by (metis prod.collapse)
  have g: "\<not> getDocument_fails ex_env" "\<not> getFields_fails ex_env"
    by (simp_all add: ex_env_def)
  have r: "field_rows [0x69, 0x64] (fields_or_empty (field_list ex_analysis)) =
      [\<lparr>document_id = [0x69, 0x64],
        row_field = \<lparr>field_name = [0x6E], field_value = [0x76]\<rparr>\<rparr>]"
    by (simp add: ex_analysis_def fields_or_empty_def field_rows_def)
  from C1_upload_then_get [OF u g] obtain d where
    d: "get_document ex_env [0x69, 0x64] (snd (post_upload ex_env ex_request empty_state)) =
           (Response 200
              (DocumentOk d
                 (filter (\<lambda>r. document_id r = [0x69, 0x64])
                    (fields_tbl (snd (post_upload ex_env ex_request empty_state))))),
            snd (post_upload ex_env ex_request empty_state))"
      "documents (snd (post_upload ex_env ex_request empty_state)) = documents empty_state @ [d]"
      "doc_id d = [0x69, 0x64]" "status d = Processed"
      "filter (\<lambda>r. document_id r = [0x69, 0x64])
         (fields_tbl (snd (post_upload ex_env ex_request empty_state))) =
       filter (\<lambda>r. document_id r = [0x69, 0x64]) (fields_tbl empty_state) @
       field_rows [0x69, 0x64] (fields_or_empty (field_list ex_analysis))"
    by blast
  have f: "filter (\<lambda>r. document_id r = [0x69, 0x64])
         (fields_tbl (snd (post_upload ex_env ex_request empty_state))) =
       [\<lparr>document_id = [0x69, 0x64],
         row_field = \<lparr>field_name = [0x6E], field_value = [0x76]\<rparr>\<rparr>]"
    unfolding d(5) r by (simp add: empty_state_simps)
  have dd: "documents (snd (post_upload ex_env ex_request empty_state)) = [d]"
    unfolding d(2) by (simp add: empty_state_simps)
  from d(1) have d1: "get_document ex_env [0x69, 0x64]
       (snd (post_upload ex_env ex_request empty_state)) =
           (Response 200
              (DocumentOk d
                 [\<lparr>document_id = [0x69, 0x64],
                   row_field = \<lparr>field_name = [0x6E], field_value = [0x76]\<rparr>\<rparr>]),
            snd (post_upload ex_env ex_request empty_state))"
    unfolding f .
  from d1 dd d(3,4) have "\<exists>d. get_document ex_env [0x69, 0x64]
       (snd (post_upload ex_env ex_request empty_state)) =
           (Response 200
              (DocumentOk d
                 [\<lparr>document_id = [0x69, 0x64],
                   row_field = \<lparr>field_name = [0x6E], field_value = [0x76]\<rparr>\<rparr>]),
            snd (post_upload ex_env ex_request empty_state)) \<and>
        documents (snd (post_upload ex_env ex_request empty_state)) = [d] \<and>
        doc_id d = [0x69, 0x64] \<and> status d = Processed"
    by (intro exI [of _ d] conjI)
  with u g show ?thesis by (intro conjI)
qed

lemma upload_documents:
  "\<exists>r. documents (snd (upload_handler e (Some f) s)) =
          (if insert_ok e s then documents s @ [r] else documents s) \<and>
        doc_id r = uuidv4 e \<and> blob_url r = fst (choose_blob_url e f s) \<and>
        filename r = originalname f"
proof -
  consider (ok) a where "insert_ok e s" "\<not> save_fails e" "\<not> update_fails e"
      "analyzer_result e f s = Inr a"
    | (failed) "\<not> insert_ok e s \<or> (\<exists>err. analyzer_result e f s = Inl err) \<or>
        save_fails e \<or> update_fails e"
    using upload_outcome [of e s f] by auto
  then show ?thesis
  proof cases
    case ok
    then show ?thesis
      by (simp add: upload_success [OF ok(1) ok(4) ok(2) ok(3)] new_row_def)
  next
    case failed
    show ?thesis
      by (rule exI [of _ "new_row e f s"])
         (simp add: upload_failure(3) [OF failed] new_row_def)
  qed
qed

text \<open>
  C3: for a \<^verbatim>\<open>POST /upload\<close> whose file multer has accepted and stored, if inserting
  the document fails, or the analyzer fails, or saving the fields fails, or updating the
  status fails, the answer is 500 with \<^verbatim>\<open>{success:false, error:"upload failed"}\<close>, and
  what was written before the failure stays: the uploaded file is on disk with the bytes
  of the request's file part, the row inserted with status \<^verbatim>\<open>processing\<close> is in the
  table as inserted, and so are the field rows if they had been saved.
\<close>

theorem C3_failure_500_no_rollback:
  assumes "multer_single e req s0 = (Inr (Some f), s)"
    and "\<not> insert_ok e s \<or> (\<exists>err. analyzer_result e f s = Inl err) \<or>
         save_fails e \<or> update_fails e"
  shows "fst (post_upload e req s0) = Response 500 (Failure ''upload failed'') \<and>
         (\<exists>nm c. FilePart file_field nm c \<in> set req \<and>
            disk (snd (post_upload e req s0)) = (disk s0)(file_path f \<mapsto> c)) \<and>
         documents (snd (post_upload e req s0)) =
           (if insert_ok e s then documents s0 @ [new_row e f s] else documents s0) \<and>
         status (new_row e f s) = Processing \<and>
         fields_tbl (snd (post_upload e req s0)) =
           (case analyzer_result e f s of
              Inl err \<Rightarrow> fields_tbl s0
            | Inr a \<Rightarrow>
                if insert_ok e s \<and> \<not> save_fails e
                then fields_tbl s0 @ field_rows (uuidv4 e) (fields_or_empty (field_list a))
                else fields_tbl s0)"
proof -
  from assms(1) have "multer_parts e req None s0 = (Inr (Some f), s)"
    by (simp add: multer_single_def)
  from multer_parts_file [OF this] obtain nm c
    where nm: "FilePart file_field nm c \<in> set req"
      and s: "s = s0\<lparr>disk := (disk s0)(file_path f \<mapsto> c)\<rparr>"
    by blast
  from s have t: "documents s = documents s0" "fields_tbl s = fields_tbl s0"
    "disk s = (disk s0)(file_path f \<mapsto> c)"
    by simp_all
  have p: "post_upload e req s0 = upload_handler e (Some f) s"
    by (rule post_upload_passed [OF assms(1)])
  have d: "\<exists>nm c. FilePart file_field nm c \<in> set req \<and>
      disk (snd (post_upload e req s0)) = (disk s0)(file_path f \<mapsto> c)"
    unfolding p upload_failure(2) [OF assms(2)] t(3) using nm by blast
  have r: "fst (post_upload e req s0) = Response 500 (Failure ''upload failed'') \<and>
         documents (snd (post_upload e req s0)) =
           (if insert_ok e s then documents s0 @ [new_row e f s] else documents s0) \<and>
         status (new_row e f s) = Processing \<and>
         fields_tbl (snd (post_upload e req s0)) =
           (case analyzer_result e f s of
              Inl err \<Rightarrow> fields_tbl s0
            | Inr a \<Rightarrow>
                if insert_ok e s \<and> \<not> save_fails e
                then fields_tbl s0 @ field_rows (uuidv4 e) (fields_or_empty (field_list a))
                else fields_tbl s0)"
    unfolding p
    by (auto simp: upload_failure(1,3,4) [OF assms(2)] t(1,2) new_row_def split: sum.splits)
  from r d show ?thesis by simp
qed

lemma fail_env_facts:
  "documents s = [] \<Longrightarrow> insert_ok fail_env s"
  "analyzer_result fail_env f s = Inl AnalyzerError"
  "new_row fail_env f s =
     \<lparr>doc_id = [0x69, 0x64], filename = originalname f, blob_url = file_path f,
      status = Processing, document_type = None, doc_confidence = None\<rparr>"
  by (simp_all add: insert_ok_def analyzer_result_def new_row_def choose_blob_url_def
      storage_configured_def fail_env_def ex_env_def)

theorem C3_failure_500_no_rollback_witness:
  "fst (post_upload fail_env ex_request empty_state) = Response 500 (Failure ''upload failed'') \<and>
   disk (snd (post_upload fail_env ex_request empty_state))
     [0x75, 0x2F, 0x31, 0x32, 0x33, 0x34, 0x5F, 0x61, 0x5F, 0x62] = Some [1, 2] \<and>
   documents (snd (post_upload fail_env ex_request empty_state)) =
     [\<lparr>doc_id = [0x69, 0x64], filename = [0x61, 0x20, 0x09, 0x62],
       blob_url = [0x75, 0x2F, 0x31, 0x32, 0x33, 0x34, 0x5F, 0x61, 0x5F, 0x62],
       status = Processing, document_type = None, doc_confidence = None\<rparr>] \<and>
   fields_tbl (snd (post_upload fail_env ex_request empty_state)) = []"
proof -
  let ?f = "\<lparr>originalname = [0x61, 0x20, 0x09, 0x62],
      file_filename = [0x31, 0x32, 0x33, 0x34, 0x5F, 0x61, 0x5F, 0x62],
      file_path = [0x75, 0x2F, 0x31, 0x32, 0x33, 0x34, 0x5F, 0x61, 0x5F, 0x62]\<rparr> :: file_info"
  let ?s = "empty_state\<lparr>disk :=
      [[0x75, 0x2F, 0x31, 0x32, 0x33, 0x34, 0x5F, 0x61, 0x5F, 0x62] \<mapsto> [1, 2]]\<rparr>"
  have 2: "multer_single fail_env ex_request empty_state = (Inr (Some ?f), ?s)"
    by (rule ex_multer) (simp_all add: fail_env_def ex_env_def)
  have 3: "\<not> insert_ok fail_env ?s \<or> (\<exists>err. analyzer_result fail_env ?f ?s = Inl err) \<or>
         save_fails fail_env \<or> update_fails fail_env"
    by (simp add: fail_env_facts)
  note c = C3_failure_500_no_rollback [OF 2 3]
  have c1: "fst (post_upload fail_env ex_request empty_state) =
      Response 500 (Failure ''upload failed'')"
    using c by (rule conjunct1)
  from c obtain nm c' where nm: "FilePart file_field nm c' \<in> set ex_request"
    and c2: "disk (snd (post_upload fail_env ex_request empty_state)) =
      (disk empty_state)(file_path ?f \<mapsto> c')"
    by blast
  from nm have c': "c' = [1, 2]" by (simp add: ex_request_def)
  have c3: "documents (snd (post_upload fail_env ex_request empty_state)) =
      (if insert_ok fail_env ?s then documents empty_state @ [new_row fail_env ?f ?s]
       else documents empty_state)"
    using c by blast
  have c4: "fields_tbl (snd (post_upload fail_env ex_request empty_state)) =
      (case analyzer_result fail_env ?f ?s of
         Inl err \<Rightarrow> fields_tbl empty_state
       | Inr a \<Rightarrow>
           if insert_ok fail_env ?s \<and> \<not> save_fails fail_env
           then fields_tbl empty_state @
                field_rows (uuidv4 fail_env) (fields_or_empty (field_list a))
           else fields_tbl empty_state)"
    using c by blast
  show ?thesis
    unfolding c1 c2 c3 c4 c'
    by (simp add: fail_env_facts empty_state_def)
qed

section \<open>Reading a document\<close>

text \<open>
  C6: \<^verbatim>\<open>GET /document/:id\<close>. When the store answers and has no document of that id, the
  response is 404 with \<^verbatim>\<open>{success:false, error:"not found"}\<close>. When the store answers
  and has one, the response is 200 with the document and all the field rows of that id
  (none, if there are none). When a read the handler makes fails (the lookup of the
  document, or the lookup of the fields of a document that exists), the response is 500
  with \<^verbatim>\<open>{success:false, error:"db error"}\<close>.
\<close>

theorem C6_get_document:
  "(\<not> getDocument_fails e \<and> find (\<lambda>d. doc_id d = i) (documents s) = None \<longrightarrow>
      get_document e i s = (Response 404 (Failure ''not found''), s)) \<and>
   (\<not> getDocument_fails e \<and> \<not> getFields_fails e \<and>
    find (\<lambda>d. doc_id d = i) (documents s) = Some doc \<longrightarrow>
      get_document e i s =
        (Response 200 (DocumentOk doc (filter (\<lambda>r. document_id r = i) (fields_tbl s))), s)) \<and>
   (getDocument_fails e \<or>
    (find (\<lambda>d. doc_id d = i) (documents s) \<noteq> None \<and> getFields_fails e) \<longrightarrow>
      fst (get_document e i s) = Response 500 (Failure ''db error''))"
  by (auto simp: get_document_def getDocument_def getFields_def split: option.splits)

theorem C6_get_document_witness:
  "get_document ex_env [0x69, 0x64] empty_state = (Response 404 (Failure ''not found''), empty_state) \<and>
   get_document ex_env [0x69, 0x64] (snd (upload_handler ex_env (Some ex_file) empty_state)) =
     (Response 200
        (DocumentOk
           \<lparr>doc_id = [0x69, 0x64], filename = [0x61],
             blob_url = [0x75, 0x2F, 0x31, 0x5F, 0x61], status = Processed,
             document_type = Some [0x69, 0x6E, 0x76], doc_confidence = Some (Num (9 / 10))\<rparr>
           [\<lparr>document_id = [0x69, 0x64],
             row_field = \<lparr>field_name = [0x6E], field_value = [0x76]\<rparr>\<rparr>]),
      snd (upload_handler ex_env (Some ex_file) empty_state)) \<and>
   fst (get_document (ex_env\<lparr>getDocument_fails := True\<rparr>) [0x69, 0x64] empty_state) =
     Response 500 (Failure ''db error'')"
proof -
  let ?s = "snd (upload_handler ex_env (Some ex_file) empty_state)"
  let ?d = "\<lparr>doc_id = [0x69, 0x64], filename = [0x61],
             blob_url = [0x75, 0x2F, 0x31, 0x5F, 0x61], status = Processed,
             document_type = Some [0x69, 0x6E, 0x76], doc_confidence = Some (Num (9 / 10))\<rparr>"
  have a: "\<not> getDocument_fails ex_env \<and>
      find (\<lambda>d. doc_id d = [0x69, 0x64]) (documents empty_state) = None"
    by (simp add: ex_env_def empty_state_def)
  have b: "\<not> getDocument_fails ex_env \<and> \<not> getFields_fails ex_env \<and>
      find (\<lambda>d. doc_id d = [0x69, 0x64]) (documents ?s) = Some ?d"
    by (simp add: ex_upload ex_env_simps)
  have c: "getDocument_fails (ex_env\<lparr>getDocument_fails := True\<rparr>) \<or>
      (find (\<lambda>d. doc_id d = [0x69, 0x64]) (documents empty_state) \<noteq> None \<and>
       getFields_fails (ex_env\<lparr>getDocument_fails := True\<rparr>))"
    by simp
  have f: "filter (\<lambda>r. document_id r = [0x69, 0x64]) (fields_tbl ?s) =
      [\<lparr>document_id = [0x69, 0x64],
        row_field = \<lparr>field_name = [0x6E], field_value = [0x76]\<rparr>\<rparr>]"
    by (simp add: ex_upload)
  from C6_get_document [of ex_env "[0x69, 0x64]" empty_state] a
  have 1: "get_document ex_env [0x69, 0x64] empty_state =
      (Response 404 (Failure ''not found''), empty_state)"
    by blast
  from C6_get_document [of ex_env "[0x69, 0x64]" ?s ?d] b
  have 2: "get_document ex_env [0x69, 0x64] ?s =
      (Response 200 (DocumentOk ?d (filter (\<lambda>r. document_id r = [0x69, 0x64]) (fields_tbl ?s))), ?s)"
    by blast
  from C6_get_document [of "ex_env\<lparr>getDocument_fails := True\<rparr>" "[0x69, 0x64]" empty_state] c
  have 3: "fst (get_document (ex_env\<lparr>getDocument_fails := True\<rparr>) [0x69, 0x64] empty_state) =
      Response 500 (Failure ''db error'')"
    by blast
  show ?thesis using 1 2 3 by (simp only: f simp_thms)
qed


section \<open>Where the file is said to be stored\<close>

lemma upload_try_blob:
  "upload_try e (Some f) s =
     (case choose_blob_url e f s of
        (blobUrl, s1) \<Rightarrow>
          case insertDocument (insert_fails e) (uuidv4 e) (originalname f) blobUrl Processing s1 of
            Inl err \<Rightarrow> (Inl err, s1)
          | Inr s2 \<Rightarrow>
              (case analyze e blobUrl (file_path f) of
                 Inl err \<Rightarrow> (Inl err, s2)
               | Inr a \<Rightarrow>
                   (case saveExtractedFields (save_fails e) (uuidv4 e)
                           (fields_or_empty (field_list a)) s2 of
                      Inl err \<Rightarrow> (Inl err, s2)
                    | Inr s3 \<Rightarrow>
                        (case updateDocumentStatus (update_fails e) (uuidv4 e) Processed
                                (type_or_null (documentType a))
                                (confidence_or_null (confidence a)) s3 of
                           Inl err \<Rightarrow> (Inl err, s3)
                         | Inr s4 \<Rightarrow> (Inr (Response 200 (UploadOk (uuidv4 e) a)), s4)))))"
  by (simp add: upload_try_def Let_def split: prod.splits)

lemma upload_response_console:
  "fst (upload_handler e (Some f) s) =
   fst (upload_handler (e\<lparr>AZURE_STORAGE_CONNECTION_STRING := None\<rparr>) (Some f)
          (s\<lparr>console := c\<rparr>))"
  if "fst (choose_blob_url e f s) = file_path f"
proof -
  obtain u s1 where c: "choose_blob_url e f s = (u, s1)" "documents s1 = documents s"
    "fields_tbl s1 = fields_tbl s"
    by (rule choose_blob_url_cases)
  with that have u: "u = file_path f" by simp
  show ?thesis
    by (simp add: upload_handler_def upload_try_blob c u choose_blob_url_local
        storage_configured_def insertDocument_def saveExtractedFields_def
        updateDocumentStatus_def upload_catch_def split: sum.splits)
qed

text \<open>
  C4: when the connection string is set and the upload to the blob store fails, the
  failure is logged and \<^verbatim>\<open>blobUrl\<close> is the local path; the response is the one the same
  request gets without cloud storage; and if no other step fails, it is 200, the stored
  document carrying the local path as its \<^verbatim>\<open>blob_url\<close>.
\<close>

theorem C4_blob_failure_recovered:
  assumes "storage_configured e"
    and "uploadLocalFile e (file_path f) (blob_name f) = Inl err"
  shows "choose_blob_url e f s =
           (file_path f, s\<lparr>console := console s @ [AzureBlobUploadFailed err]\<rparr>) \<and>
         fst (upload_handler e (Some f) s) =
           fst (upload_handler (e\<lparr>AZURE_STORAGE_CONNECTION_STRING := None\<rparr>) (Some f) s) \<and>
         (insert_ok e s \<and> analyze e (file_path f) (file_path f) = Inr a \<and>
          \<not> save_fails e \<and> \<not> update_fails e \<longrightarrow>
            fst (upload_handler e (Some f) s) = Response 200 (UploadOk (uuidv4 e) a) \<and>
            documents (snd (upload_handler e (Some f) s)) =
              documents s @
              [\<lparr>doc_id = uuidv4 e, filename = originalname f, blob_url = file_path f,
                status = Processed, document_type = type_or_null (documentType a),
                doc_confidence = confidence_or_null (confidence a)\<rparr>])"
proof -
  have b: "choose_blob_url e f s =
      (file_path f, s\<lparr>console := console s @ [AzureBlobUploadFailed err]\<rparr>)"
    using assms by (simp add: choose_blob_url_def)
  have r: "fst (upload_handler e (Some f) s) =
      fst (upload_handler (e\<lparr>AZURE_STORAGE_CONNECTION_STRING := None\<rparr>) (Some f) s)"
    using upload_response_console [of e f s "console s"] b by simp
  have ok: "fst (upload_handler e (Some f) s) = Response 200 (UploadOk (uuidv4 e) a) \<and>
      documents (snd (upload_handler e (Some f) s)) =
        documents s @
        [\<lparr>doc_id = uuidv4 e, filename = originalname f, blob_url = file_path f,
          status = Processed, document_type = type_or_null (documentType a),
          doc_confidence = confidence_or_null (confidence a)\<rparr>]"
    if "insert_ok e s" "analyze e (file_path f) (file_path f) = Inr a"
      "\<not> save_fails e" "\<not> update_fails e"
  proof -
    have "analyzer_result e f s = Inr a"
      using that(2) b by (simp add: analyzer_result_def)
    from upload_success [OF that(1) this that(3,4)] show ?thesis
      by (simp add: new_row_def b)
  qed
  show ?thesis using b r ok by blast
qed


theorem C4_blob_failure_recovered_witness:
  "storage_configured cloud_env \<and>
   uploadLocalFile cloud_env (file_path ex_file) (blob_name ex_file) = Inl BlobError \<and>
   fst (upload_handler cloud_env (Some ex_file) empty_state) =
     Response 200 (UploadOk [0x69, 0x64] ex_analysis) \<and>
   documents (snd (upload_handler cloud_env (Some ex_file) empty_state)) =
     [\<lparr>doc_id = [0x69, 0x64], filename = [0x61], blob_url = file_path ex_file,
       status = Processed, document_type = Some [0x69, 0x6E, 0x76],
       doc_confidence = Some (Num (9 / 10))\<rparr>]"
proof -
  have 1: "storage_configured cloud_env"
    by (simp add: storage_configured_def cloud_env_def truthy_string_def)
  have 2: "uploadLocalFile cloud_env (file_path ex_file) (blob_name ex_file) = Inl BlobError"
    by (simp add: cloud_env_def ex_env_def)
  have 3: "insert_ok cloud_env empty_state \<and>
      analyze cloud_env (file_path ex_file) (file_path ex_file) = Inr ex_analysis \<and>
      \<not> save_fails cloud_env \<and> \<not> update_fails cloud_env"
    by (simp add: insert_ok_def cloud_env_def ex_env_def empty_state_def)
  have 4: "uuidv4 cloud_env = [0x69, 0x64]" "originalname ex_file = [0x61]"
    "documents empty_state = []"
    "type_or_null (documentType ex_analysis) = Some [0x69, 0x6E, 0x76]"
    "confidence_or_null (confidence ex_analysis) = Some (Num (9 / 10))"
    by (simp_all add: cloud_env_def ex_env_def ex_file_def empty_state_def ex_analysis_def
        type_or_null_def confidence_or_null_def truthy_string_def truthy_num_def)
  from C4_blob_failure_recovered [OF 1 2, of empty_state ex_analysis] 3
  have "fst (upload_handler cloud_env (Some ex_file) empty_state) =
          Response 200 (UploadOk (uuidv4 cloud_env) ex_analysis) \<and>
        documents (snd (upload_handler cloud_env (Some ex_file) empty_state)) =
          documents empty_state @
          [\<lparr>doc_id = uuidv4 cloud_env, filename = originalname ex_file,
            blob_url = file_path ex_file, status = Processed,
            document_type = type_or_null (documentType ex_analysis),
            doc_confidence = confidence_or_null (confidence ex_analysis)\<rparr>]"
    by blast
  then show ?thesis using 1 2 by (simp add: 4)
qed

text \<open>
  C7: when the connection string is not set, the outcome of an upload does not depend on
  the blob store (it is not called), every document row the request leaves that was not
  there before has the local path of the file as its \<^verbatim>\<open>blob_url\<close>, and the row of the
  upload is there with that path whenever its insertion went through.
\<close>

theorem C7_no_config_local_path:
  assumes "AZURE_STORAGE_CONNECTION_STRING e = None"
  shows "upload_handler (e\<lparr>uploadLocalFile := u\<rparr>) (Some f) s = upload_handler e (Some f) s \<and>
         (\<forall>d \<in> set (documents (snd (upload_handler e (Some f) s))).
            d \<notin> set (documents s) \<longrightarrow> blob_url d = file_path f) \<and>
         (insert_ok e s \<longrightarrow>
            (\<exists>d. find (\<lambda>d. doc_id d = uuidv4 e)
                   (documents (snd (upload_handler e (Some f) s))) = Some d \<and>
                 blob_url d = file_path f))"
proof -
  have n: "\<not> storage_configured e" "\<not> storage_configured (e\<lparr>uploadLocalFile := u\<rparr>)"
    using assms by (simp_all add: storage_configured_def)
  have 1: "upload_handler (e\<lparr>uploadLocalFile := u\<rparr>) (Some f) s = upload_handler e (Some f) s"
    by (simp add: upload_handler_def upload_try_blob choose_blob_url_local n
        cong: sum.case_cong)
  obtain r where r: "documents (snd (upload_handler e (Some f) s)) =
          (if insert_ok e s then documents s @ [r] else documents s)"
      "doc_id r = uuidv4 e" "blob_url r = file_path f"
    using upload_documents [of e f s] by (auto simp: choose_blob_url_local n)
  have 2: "\<forall>d \<in> set (documents (snd (upload_handler e (Some f) s))).
            d \<notin> set (documents s) \<longrightarrow> blob_url d = file_path f"
    using r by (auto split: if_splits)
  have 3: "\<exists>d. find (\<lambda>d. doc_id d = uuidv4 e)
                   (documents (snd (upload_handler e (Some f) s))) = Some d \<and>
                 blob_url d = file_path f" if "insert_ok e s"
    using that r by (simp add: insert_ok_def find_fresh_append)
  show ?thesis using 1 2 3 by blast
qed

theorem C7_no_config_local_path_witness:
  "AZURE_STORAGE_CONNECTION_STRING ex_env = None \<and>
   upload_handler (ex_env\<lparr>uploadLocalFile := (\<lambda>p n. Inr [0x68])\<rparr>) (Some ex_file) empty_state =
     upload_handler ex_env (Some ex_file) empty_state \<and>
   map blob_url (documents (snd (upload_handler ex_env (Some ex_file) empty_state))) =
     [file_path ex_file]"
proof -
  have 1: "AZURE_STORAGE_CONNECTION_STRING ex_env = None" by (simp add: ex_env_def)
  from C7_no_config_local_path [OF 1, of "\<lambda>p n. Inr [0x68]" ex_file empty_state]
  have "upload_handler (ex_env\<lparr>uploadLocalFile := (\<lambda>p n. Inr [0x68])\<rparr>) (Some ex_file) empty_state =
     upload_handler ex_env (Some ex_file) empty_state"
    by blast
  moreover have "file_path ex_file = [0x75, 0x2F, 0x31, 0x5F, 0x61]"
    by (simp add: ex_file_def)
  ultimately show ?thesis using 1 by (simp add: ex_upload)
qed

section \<open>What a successful upload persists\<close>

lemma or_null_values:
  "type_or_null t = (if t = Some [] then None else t)"
  "confidence_or_null c = (if c = Some NaN \<or> c = Some (Num 0) then None else c)"
  "fields_or_empty l = (case l of None \<Rightarrow> [] | Some fs \<Rightarrow> fs)"
  by (simp_all add: type_or_null_def confidence_or_null_def fields_or_empty_def
      truthy_string_def truthy_num_def split: option.splits jsnum.splits)

lemma upload_persists:
  assumes "upload_handler e (Some f) s = (Response 200 b, s')"
  shows "\<exists>a. analyze e (fst (choose_blob_url e f s)) (file_path f) = Inr a \<and>
           b = UploadOk (uuidv4 e) a \<and>
           documents s' =
             documents s @
             [\<lparr>doc_id = uuidv4 e, filename = originalname f,
               blob_url = fst (choose_blob_url e f s), status = Processed,
               document_type = type_or_null (documentType a),
               doc_confidence = confidence_or_null (confidence a)\<rparr>] \<and>
           fields_tbl s' =
             fields_tbl s @ field_rows (uuidv4 e) (fields_or_empty (field_list a))"
proof -
  from upload_200_only_success [OF assms]
  obtain a where ok: "insert_ok e s" "\<not> save_fails e" "\<not> update_fails e"
    and a: "analyzer_result e f s = Inr a" and b: "b = UploadOk (uuidv4 e) a"
    by auto
  from upload_success [OF ok(1) a ok(2,3)] assms
  have "documents s' =
             documents s @
             [\<lparr>doc_id = uuidv4 e, filename = originalname f,
               blob_url = fst (choose_blob_url e f s), status = Processed,
               document_type = type_or_null (documentType a),
               doc_confidence = confidence_or_null (confidence a)\<rparr>]"
    and "fields_tbl s' =
             fields_tbl s @ field_rows (uuidv4 e) (fields_or_empty (field_list a))"
    by (auto simp: new_row_def)
  with a b show ?thesis by (auto simp: analyzer_result_def)
qed

lemma zero_multer:
  "multer_single zero_env ex_request empty_state =
     (Inr (Some \<lparr>originalname = [0x61, 0x20, 0x09, 0x62],
                 file_filename = [0x31, 0x32, 0x33, 0x34, 0x5F, 0x61, 0x5F, 0x62],
                 file_path = [0x75, 0x2F, 0x31, 0x32, 0x33, 0x34, 0x5F, 0x61, 0x5F, 0x62]\<rparr>),
      empty_state\<lparr>disk := [[0x75, 0x2F, 0x31, 0x32, 0x33, 0x34, 0x5F, 0x61, 0x5F, 0x62] \<mapsto> [1, 2]]\<rparr>)"
  by (rule ex_multer) (simp_all add: zero_env_def ex_env_def)

lemma zero_upload:
  "post_upload zero_env ex_request empty_state =
     (Response 200 (UploadOk [0x69, 0x64] zero_analysis),
      \<lparr>documents =
         [\<lparr>doc_id = [0x69, 0x64], filename = [0x61, 0x20, 0x09, 0x62],
           blob_url = [0x75, 0x2F, 0x31, 0x32, 0x33, 0x34, 0x5F, 0x61, 0x5F, 0x62],
           status = Processed,
           document_type = Some [0x69, 0x6E, 0x76], doc_confidence = None\<rparr>],
       fields_tbl =
         [\<lparr>document_id = [0x69, 0x64],
           row_field = \<lparr>field_name = [0x6E], field_value = [0x76]\<rparr>\<rparr>],
       disk = [[0x75, 0x2F, 0x31, 0x32, 0x33, 0x34, 0x5F, 0x61, 0x5F, 0x62] \<mapsto> [1, 2]],
       console = []\<rparr>)"
  unfolding post_upload_passed [OF zero_multer]
  by (simp add: upload_handler_def upload_try_def Let_def choose_blob_url_def
      storage_configured_def insertDocument_def saveExtractedFields_def
      updateDocumentStatus_def zero_env_def ex_env_def empty_state_def
      zero_analysis_def type_or_null_def confidence_or_null_def fields_or_empty_def
      field_rows_def truthy_string_def truthy_num_def)

text \<open>
  C8 does not hold of the source. The analyzer returns an analysis with the type
  \<^verbatim>\<open>inv\<close>, the confidence \<^verbatim>\<open>0\<close> and one field. The upload succeeds, its response
  carries that analysis with its confidence, and the type and the field are persisted as
  returned; but the confidence is persisted as null, although the analysis contains it:
  \<^verbatim>\<open>analysis.confidence || null\<close> is null for every falsy confidence.
\<close>

theorem C8_confidence_zero_stored_null:
  "analyze zero_env [0x75, 0x2F, 0x31, 0x32, 0x33, 0x34, 0x5F, 0x61, 0x5F, 0x62]
     [0x75, 0x2F, 0x31, 0x32, 0x33, 0x34, 0x5F, 0x61, 0x5F, 0x62] = Inr zero_analysis \<and>
   confidence zero_analysis = Some (Num 0) \<and>
   fst (post_upload zero_env ex_request empty_state) =
     Response 200 (UploadOk [0x69, 0x64] zero_analysis) \<and>
   documents (snd (post_upload zero_env ex_request empty_state)) =
     [\<lparr>doc_id = [0x69, 0x64], filename = [0x61, 0x20, 0x09, 0x62],
       blob_url = [0x75, 0x2F, 0x31, 0x32, 0x33, 0x34, 0x5F, 0x61, 0x5F, 0x62],
       status = Processed,
       document_type = documentType zero_analysis, doc_confidence = None\<rparr>] \<and>
   fields_tbl (snd (post_upload zero_env ex_request empty_state)) =
     field_rows [0x69, 0x64] (the (field_list zero_analysis)) \<and>
   field_list zero_analysis \<noteq> None"
  by (simp add: zero_upload)
     (simp add: zero_env_def zero_analysis_def field_rows_def)

lemma unat_digit: "d < 10 \<Longrightarrow> unat (digit d) = 48 + d"
proof -
  assume d: "d < 10"
  have "digit d = of_nat (48 + d)" by (simp add: digit_def)
  also have "unat (of_nat (48 + d) :: 16 word) = 48 + d"
    using d by (simp add: unat_of_nat del: of_nat_add)
  finally show ?thesis .
qed

lemma decimal_value_number_to_string: "decimal_value (number_to_string n) = n"
proof (induction n rule: number_to_string.induct)
  case (1 n)
  show ?case
  proof (cases "n < 10")
    case True
    then show ?thesis
      by (subst number_to_string.simps) (simp add: decimal_value_def unat_digit)
  next
    case False
    with 1 have "decimal_value (number_to_string (n div 10)) = n div 10" by simp
    with False show ?thesis
      by (subst number_to_string.simps) (simp add: decimal_value_def unat_digit)
  qed
qed

lemma not_space_underscore: "\<not> is_space underscore"
  by (simp add: is_space_def underscore_def)

lemma replace_ws_no_space: "c \<in> set (replace_ws s) \<Longrightarrow> \<not> is_space c"
  by (induction s rule: replace_ws.induct) (auto simp: not_space_underscore split: if_splits)

lemma replace_ws_prefix:
  "\<forall>c \<in> set a. \<not> is_space c \<Longrightarrow> replace_ws (a @ b) = a @ replace_ws b"
  by (induction a) auto

lemma replace_ws_run:
  assumes "ws \<noteq> []" and "\<forall>c \<in> set ws. is_space c" and "b = [] \<or> \<not> is_space (hd b)"
  shows "replace_ws (ws @ b) = underscore # replace_ws b"
proof -
  obtain w ws' where ws: "ws = w # ws'" using assms(1) by (cases ws) auto
  have "dropWhile is_space (ws' @ b) = dropWhile is_space b"
    using assms(2) ws by (simp add: dropWhile_append2)
  also have "\<dots> = b" using assms(3) by (cases b) auto
  finally show ?thesis using assms(2) ws by simp
qed

lemma replace_ws_split:
  assumes "\<forall>c \<in> set a. \<not> is_space c" and "ws \<noteq> []" and "\<forall>c \<in> set ws. is_space c"
    and "b = [] \<or> \<not> is_space (hd b)"
  shows "replace_ws (a @ ws @ b) = a @ underscore # replace_ws b"
  by (simp add: replace_ws_prefix [OF assms(1)] replace_ws_run [OF assms(2,3,4)])

lemma replace_ws_id: "\<forall>c \<in> set s. \<not> is_space c \<Longrightarrow> replace_ws s = s"
  using replace_ws_prefix [of s "[]"] by simp


lemma busboy_basename_id:
  "\<forall>c \<in> set nm. c \<noteq> slash \<and> c \<noteq> backslash \<Longrightarrow> nm \<noteq> [dot] \<Longrightarrow> nm \<noteq> [dot, dot] \<Longrightarrow>
     busboy_basename nm = nm"
proof -
  assume a: "\<forall>c \<in> set nm. c \<noteq> slash \<and> c \<noteq> backslash" and d: "nm \<noteq> [dot]" "nm \<noteq> [dot, dot]"
  from a have t: "takeWhile (\<lambda>c. c \<noteq> slash \<and> c \<noteq> backslash) (rev nm) = rev nm"
    by (simp add: takeWhile_eq_all_conv)
  have "rev nm \<noteq> [dot]" "rev nm \<noteq> [dot, dot]"
    using d by (auto simp: rev_swap)
  then show ?thesis unfolding busboy_basename_def t by simp
qed

lemma busboy_basename_dir:
  assumes "sep = slash \<or> sep = backslash" and "\<forall>c \<in> set nm. c \<noteq> slash \<and> c \<noteq> backslash"
  shows "busboy_basename (d @ sep # nm) = busboy_basename nm"
proof -
  from assms(2)
  have t: "takeWhile (\<lambda>c. c \<noteq> slash \<and> c \<noteq> backslash) (rev nm) = rev nm"
    by (simp add: takeWhile_eq_all_conv)
  have "takeWhile (\<lambda>c. c \<noteq> slash \<and> c \<noteq> backslash) (rev (d @ sep # nm)) =
      takeWhile (\<lambda>c. c \<noteq> slash \<and> c \<noteq> backslash) (rev nm @ sep # rev d)"
    by simp
  also have "\<dots> = rev nm"
    using assms by (subst takeWhile_append2) auto
  finally show ?thesis by (simp add: busboy_basename_def t)
qed

lemma multer_one_file:
  "multer_single e [FilePart file_field nm c] s =
     (if busboy_basename nm = [] then (Inr None, s)
      else (Inr (Some (handle_file e (busboy_basename nm))),
            s\<lparr>disk := (disk s)(file_path (handle_file e (busboy_basename nm)) \<mapsto> c)\<rparr>))"
  by (simp add: multer_single_def Let_def)

text \<open>
  C9, as amended: multer hands over as \<^verbatim>\<open>originalname\<close> the base name of the file name
  of a file part of the field \<^verbatim>\<open>file\<close> (a name without \<^verbatim>\<open>/\<close> and \<^verbatim>\<open>\\<close> other than
  \<^verbatim>\<open>.\<close> and \<^verbatim>\<open>..\<close> is its own base name; what precedes a last separator is dropped),
  and a request that consists of such a part with a non-empty base name is accepted. The
  file is stored, with the bytes of the part, in the upload directory under the decimal
  timestamp, an underscore, and that base name in which every whitespace run is replaced
  by one underscore (no whitespace is left; a run between a whitespace-free prefix and a
  rest that does not start with whitespace becomes one underscore; a name without
  whitespace is unchanged). The row the handler inserts carries the base name, unmodified,
  as \<^verbatim>\<open>filename\<close>.
\<close>

theorem C9_stored_name:
  assumes "multer_single e req s = (Inr (Some f), s1)"
  shows "(\<exists>nm c. FilePart file_field nm c \<in> set req \<and> originalname f = busboy_basename nm \<and>
            originalname f \<noteq> [] \<and> disk s1 (file_path f) = Some c) \<and>
         file_filename f = number_to_string (now e) @ underscore # replace_ws (originalname f) \<and>
         file_path f = path_join (UPLOAD_DIR e) (file_filename f) \<and>
         post_upload e req s = upload_handler e (Some f) s1 \<and>
         decimal_value (number_to_string (now e)) = now e \<and>
         (\<forall>c \<in> set (replace_ws (originalname f)). \<not> is_space c) \<and>
         (\<forall>a ws b. originalname f = a @ ws @ b \<and> (\<forall>c \<in> set a. \<not> is_space c) \<and>
              ws \<noteq> [] \<and> (\<forall>c \<in> set ws. is_space c) \<and> (b = [] \<or> \<not> is_space (hd b)) \<longrightarrow>
              replace_ws (originalname f) = a @ underscore # replace_ws b) \<and>
         ((\<forall>c \<in> set (originalname f). \<not> is_space c) \<longrightarrow>
            replace_ws (originalname f) = originalname f) \<and>
         (\<forall>nm. (\<forall>c \<in> set nm. c \<noteq> slash \<and> c \<noteq> backslash) \<and> nm \<noteq> [dot] \<and> nm \<noteq> [dot, dot] \<longrightarrow>
            busboy_basename nm = nm) \<and>
         (\<forall>d sep nm. (sep = slash \<or> sep = backslash) \<and>
              (\<forall>c \<in> set nm. c \<noteq> slash \<and> c \<noteq> backslash) \<longrightarrow>
              busboy_basename (d @ sep # nm) = busboy_basename nm) \<and>
         (\<forall>nm c. busboy_basename nm \<noteq> [] \<longrightarrow>
            multer_single e [FilePart file_field nm c] s =
              (Inr (Some (handle_file e (busboy_basename nm))),
               s\<lparr>disk := (disk s)(file_path (handle_file e (busboy_basename nm)) \<mapsto> c)\<rparr>)) \<and>
         (insert_ok e s \<longrightarrow>
            (\<exists>d. find (\<lambda>d. doc_id d = uuidv4 e) (documents (snd (post_upload e req s))) = Some d \<and>
                 filename d = originalname f))"
proof -
  from assms have "multer_parts e req None s = (Inr (Some f), s1)"
    by (simp add: multer_single_def)
  from multer_parts_file [OF this] obtain nm c
    where nm: "FilePart file_field nm c \<in> set req" "busboy_basename nm \<noteq> []"
      and f: "f = handle_file e (busboy_basename nm)"
      and s1: "s1 = s\<lparr>disk := (disk s)(file_path f \<mapsto> c)\<rparr>"
    by blast
  have o: "originalname f = busboy_basename nm" by (simp add: f handle_file_def Let_def)
  have pu: "post_upload e req s = upload_handler e (Some f) s1"
    by (rule post_upload_passed [OF assms])
  have 1: "\<exists>nm c. FilePart file_field nm c \<in> set req \<and> originalname f = busboy_basename nm \<and>
            originalname f \<noteq> [] \<and> disk s1 (file_path f) = Some c"
    using nm o s1 by (intro exI [of _ nm] exI [of _ c]) simp
  have 2: "file_filename f =
      number_to_string (now e) @ underscore # replace_ws (originalname f)"
    by (simp add: f handle_file_def Let_def storage_filename_def)
  have 3: "file_path f = path_join (UPLOAD_DIR e) (file_filename f)"
    by (simp add: f handle_file_def Let_def)
  have 4: "decimal_value (number_to_string (now e)) = now e"
    by (rule decimal_value_number_to_string)
  have 5: "\<forall>c \<in> set (replace_ws (originalname f)). \<not> is_space c"
    by (rule ballI) (rule replace_ws_no_space)
  have 6: "\<forall>a ws b. originalname f = a @ ws @ b \<and> (\<forall>c \<in> set a. \<not> is_space c) \<and>
      ws \<noteq> [] \<and> (\<forall>c \<in> set ws. is_space c) \<and> (b = [] \<or> \<not> is_space (hd b)) \<longrightarrow>
      replace_ws (originalname f) = a @ underscore # replace_ws b"
  proof (intro allI impI, elim conjE)
    fix a ws b
    assume "originalname f = a @ ws @ b" "\<forall>c \<in> set a. \<not> is_space c" "ws \<noteq> []"
      "\<forall>c \<in> set ws. is_space c" "b = [] \<or> \<not> is_space (hd b)"
    then show "replace_ws (originalname f) = a @ underscore # replace_ws b"
      using replace_ws_split [of a ws b] by simp
  qed
  have 7: "(\<forall>c \<in> set (originalname f). \<not> is_space c) \<longrightarrow>
      replace_ws (originalname f) = originalname f"
    by (rule impI) (rule replace_ws_id)
  have 8: "\<forall>nm. (\<forall>c \<in> set nm. c \<noteq> slash \<and> c \<noteq> backslash) \<and> nm \<noteq> [dot] \<and> nm \<noteq> [dot, dot] \<longrightarrow>
      busboy_basename nm = nm"
    by (intro allI impI, elim conjE) (rule busboy_basename_id)
  have 9: "\<forall>d sep nm. (sep = slash \<or> sep = backslash) \<and>
      (\<forall>c \<in> set nm. c \<noteq> slash \<and> c \<noteq> backslash) \<longrightarrow>
      busboy_basename (d @ sep # nm) = busboy_basename nm"
    by (intro allI impI, elim conjE) (rule busboy_basename_dir)
  have 10: "\<forall>nm c. busboy_basename nm \<noteq> [] \<longrightarrow>
      multer_single e [FilePart file_field nm c] s =
        (Inr (Some (handle_file e (busboy_basename nm))),
         s\<lparr>disk := (disk s)(file_path (handle_file e (busboy_basename nm)) \<mapsto> c)\<rparr>)"
    by (simp add: multer_one_file)
  have 11: "\<exists>d. find (\<lambda>d. doc_id d = uuidv4 e) (documents (snd (post_upload e req s))) = Some d \<and>
      filename d = originalname f" if ok: "insert_ok e s"
  proof -
    have ok': "insert_ok e s1" using ok by (simp add: insert_ok_def s1)
    obtain r where r: "documents (snd (upload_handler e (Some f) s1)) =
          (if insert_ok e s1 then documents s1 @ [r] else documents s1)"
      "doc_id r = uuidv4 e" "filename r = originalname f"
      using upload_documents [of e f s1] by auto
    with ok ok' show ?thesis
      by (simp add: pu insert_ok_def find_fresh_append s1)
  qed
  have ins: "insert_ok e s \<longrightarrow>
      (\<exists>d. find (\<lambda>d. doc_id d = uuidv4 e) (documents (snd (post_upload e req s))) = Some d \<and>
           filename d = originalname f)"
    using 11 by (rule impI)
  show ?thesis
    by (intro conjI)
       (rule 1, rule 2, rule 3, rule pu, rule 4, rule 5, rule 6, rule 7, rule 8, rule 9,
        rule 10, rule ins)
qed

theorem C9_stored_name_witness:
  "multer_single ex_env ex_request empty_state =
     (Inr (Some \<lparr>originalname = [0x61, 0x20, 0x09, 0x62],
                 file_filename = [0x31, 0x32, 0x33, 0x34, 0x5F, 0x61, 0x5F, 0x62],
                 file_path = [0x75, 0x2F, 0x31, 0x32, 0x33, 0x34, 0x5F, 0x61, 0x5F, 0x62]\<rparr>),
      empty_state\<lparr>disk := [[0x75, 0x2F, 0x31, 0x32, 0x33, 0x34, 0x5F, 0x61, 0x5F, 0x62] \<mapsto> [1, 2]]\<rparr>) \<and>
   [0x31, 0x32, 0x33, 0x34, 0x5F, 0x61, 0x5F, 0x62] =
     number_to_string (now ex_env) @ underscore # replace_ws [0x61, 0x20, 0x09, 0x62] \<and>
   replace_ws [0x61, 0x20, 0x09, 0x62] = [0x61, 0x5F, 0x62] \<and>
   insert_ok ex_env empty_state \<and>
   (\<exists>d. find (\<lambda>d. doc_id d = [0x69, 0x64])
          (documents (snd (post_upload ex_env ex_request empty_state))) = Some d \<and>
        filename d = [0x61, 0x20, 0x09, 0x62])"
proof -
  let ?f = "\<lparr>originalname = [0x61, 0x20, 0x09, 0x62],
      file_filename = [0x31, 0x32, 0x33, 0x34, 0x5F, 0x61, 0x5F, 0x62],
      file_path = [0x75, 0x2F, 0x31, 0x32, 0x33, 0x34, 0x5F, 0x61, 0x5F, 0x62]\<rparr> :: file_info"
  have m: "multer_single ex_env ex_request empty_state =
     (Inr (Some ?f),
      empty_state\<lparr>disk := [[0x75, 0x2F, 0x31, 0x32, 0x33, 0x34, 0x5F, 0x61, 0x5F, 0x62] \<mapsto> [1, 2]]\<rparr>)"
    by (rule ex_multer) (simp_all add: ex_env_def)
  have ok: "insert_ok ex_env empty_state"
    by (simp add: insert_ok_def ex_env_def empty_state_def)
  have sp: "originalname ?f = [0x61] @ [0x20, 0x09] @ [0x62] \<and>
      (\<forall>c \<in> set [0x61 :: jschar]. \<not> is_space c) \<and> [0x20, 0x09 :: jschar] \<noteq> [] \<and>
      (\<forall>c \<in> set [0x20, 0x09 :: jschar]. is_space c) \<and>
      ([0x62 :: jschar] = [] \<or> \<not> is_space (hd [0x62 :: jschar]))"
    by (simp add: is_space_def)
  note c = C9_stored_name [OF m]
  note c2 = c [THEN conjunct2, THEN conjunct1]
  note c7 = c [THEN conjunct2, THEN conjunct2, THEN conjunct2, THEN conjunct2, THEN conjunct2,
      THEN conjunct2, THEN conjunct1]
  note c12 = c [THEN conjunct2, THEN conjunct2, THEN conjunct2, THEN conjunct2, THEN conjunct2,
      THEN conjunct2, THEN conjunct2, THEN conjunct2, THEN conjunct2, THEN conjunct2,
      THEN conjunct2]
  have o: "originalname ?f = [0x61, 0x20, 0x09, 0x62]"
    "file_filename ?f = [0x31, 0x32, 0x33, 0x34, 0x5F, 0x61, 0x5F, 0x62]"
    by simp_all
  from c2 have a: "[0x31, 0x32, 0x33, 0x34, 0x5F, 0x61, 0x5F, 0x62] =
     number_to_string (now ex_env) @ underscore # replace_ws [0x61, 0x20, 0x09, 0x62]"
    unfolding o .
  from c7 [rule_format, of "[0x61]" "[0x20, 0x09]" "[0x62]", OF sp]
  have b: "replace_ws [0x61, 0x20, 0x09, 0x62] = [0x61] @ underscore # replace_ws [0x62]"
    unfolding o .
  from c12 [rule_format, OF ok] have d: "\<exists>d. find (\<lambda>d. doc_id d = uuidv4 ex_env)
          (documents (snd (post_upload ex_env ex_request empty_state))) = Some d \<and>
        filename d = [0x61, 0x20, 0x09, 0x62]"
    unfolding o .
  have u: "uuidv4 ex_env = [0x69, 0x64]" by (simp add: ex_env_def)
  have r: "[0x61] @ underscore # replace_ws [0x62] = [0x61, 0x5F, 0x62]"
    by (simp add: is_space_def underscore_def)
  from b have b': "replace_ws [0x61, 0x20, 0x09, 0x62] = [0x61, 0x5F, 0x62]"
    unfolding r .
  from d have d': "\<exists>d. find (\<lambda>d. doc_id d = [0x69, 0x64])
          (documents (snd (post_upload ex_env ex_request empty_state))) = Some d \<and>
        filename d = [0x61, 0x20, 0x09, 0x62]"
    unfolding u .
  show ?thesis
    by (intro conjI) (rule m, rule a, rule b', rule ok, rule d')
qed

text \<open>
  C9 as stated fails: for the file a client names \<^verbatim>\<open>x/a b\<close>, that name with the
  timestamp before it and its whitespace replaced is \<^verbatim>\<open>1234_x/a_b\<close>, but the file is
  stored as \<^verbatim>\<open>1234_a_b\<close>, and the \<^verbatim>\<open>filename\<close> of the row is \<^verbatim>\<open>a b\<close>, not the
  name the client gave.
\<close>

theorem C9_client_path_counterexample:
  "path_request = [FilePart file_field [0x78, 0x2F, 0x61, 0x20, 0x62] [1, 2]] \<and>
   storage_filename (now ex_env) [0x78, 0x2F, 0x61, 0x20, 0x62] =
     [0x31, 0x32, 0x33, 0x34, 0x5F, 0x78, 0x2F, 0x61, 0x5F, 0x62] \<and>
   multer_single ex_env path_request empty_state =
     (Inr (Some \<lparr>originalname = [0x61, 0x20, 0x62],
                 file_filename = [0x31, 0x32, 0x33, 0x34, 0x5F, 0x61, 0x5F, 0x62],
                 file_path = [0x75, 0x2F, 0x31, 0x32, 0x33, 0x34, 0x5F, 0x61, 0x5F, 0x62]\<rparr>),
      empty_state\<lparr>disk := [[0x75, 0x2F, 0x31, 0x32, 0x33, 0x34, 0x5F, 0x61, 0x5F, 0x62] \<mapsto> [1, 2]]\<rparr>) \<and>
   fst (post_upload ex_env path_request empty_state) =
     Response 200 (UploadOk [0x69, 0x64] ex_analysis) \<and>
   map filename (documents (snd (post_upload ex_env path_request empty_state))) =
     [[0x61, 0x20, 0x62]]"
proof -
  have m: "multer_single ex_env path_request empty_state =
     (Inr (Some \<lparr>originalname = [0x61, 0x20, 0x62],
                 file_filename = [0x31, 0x32, 0x33, 0x34, 0x5F, 0x61, 0x5F, 0x62],
                 file_path = [0x75, 0x2F, 0x31, 0x32, 0x33, 0x34, 0x5F, 0x61, 0x5F, 0x62]\<rparr>),
      empty_state\<lparr>disk := [[0x75, 0x2F, 0x31, 0x32, 0x33, 0x34, 0x5F, 0x61, 0x5F, 0x62] \<mapsto> [1, 2]]\<rparr>)"
    by (simp add: multer_single_def path_request_def busboy_basename_def file_field_def
        handle_file_def Let_def path_join_def storage_filename_def empty_state_def ex_env_def
        number_to_string.simps digit_def is_space_def underscore_def slash_def backslash_def
        dot_def)
  have n: "storage_filename (now ex_env) [0x78, 0x2F, 0x61, 0x20, 0x62] =
     [0x31, 0x32, 0x33, 0x34, 0x5F, 0x78, 0x2F, 0x61, 0x5F, 0x62]"
    by (simp add: storage_filename_def ex_env_def number_to_string.simps digit_def
        is_space_def underscore_def)
  have u: "post_upload ex_env path_request empty_state =
     (Response 200 (UploadOk [0x69, 0x64] ex_analysis),
      \<lparr>documents =
         [\<lparr>doc_id = [0x69, 0x64], filename = [0x61, 0x20, 0x62],
           blob_url = [0x75, 0x2F, 0x31, 0x32, 0x33, 0x34, 0x5F, 0x61, 0x5F, 0x62],
           status = Processed,
           document_type = Some [0x69, 0x6E, 0x76], doc_confidence = Some (Num (9 / 10))\<rparr>],
       fields_tbl =
         [\<lparr>document_id = [0x69, 0x64],
           row_field = \<lparr>field_name = [0x6E], field_value = [0x76]\<rparr>\<rparr>],
       disk = [[0x75, 0x2F, 0x31, 0x32, 0x33, 0x34, 0x5F, 0x61, 0x5F, 0x62] \<mapsto> [1, 2]],
       console = []\<rparr>)"
    unfolding post_upload_passed [OF m]
    by (simp add: upload_handler_def upload_try_def Let_def choose_blob_url_def
        storage_configured_def insertDocument_def saveExtractedFields_def
        updateDocumentStatus_def ex_env_def empty_state_def
        ex_analysis_def type_or_null_def confidence_or_null_def fields_or_empty_def
        field_rows_def truthy_string_def truthy_num_def)
  show ?thesis
    unfolding u m n by (simp add: path_request_def)
qed

section \<open>Fields are saved before a document is processed\<close>





lemma upload_step_done: "upload_step e (Done r) s = (Done r, s)"
  by simp















text \<open>Run to completion, the steps are the handler.\<close>

lemma upload_steps_handler:
  "((\<lambda>(p, s). upload_step e p s) ^^ 5) (upload_start e rf s) =
     (Done (fst (upload_handler e rf s)), snd (upload_handler e rf s))"
proof (cases rf)
  case None
  then show ?thesis
    by (simp add: upload_start_def upload_handler_def upload_try_def eval_nat_numeral)
next
  case (Some f)
  show ?thesis
    unfolding Some
    by (simp add: upload_start_def upload_handler_def upload_try_blob choose_blob_url_def
        eval_nat_numeral insertDocument_def saveExtractedFields_def updateDocumentStatus_def
        upload_catch_def split: sum.splits)
qed






end
